theory Spec2Isabelle
  imports Complex_Main "HOL-Library.List_Lexorder" "HOL-Library.Product_Lexorder"
begin

section \<open>Strings and the Python runtime\<close>

text \<open>
  A Python \<open>str\<close> is a sequence of Unicode code points, so text is a list of naturals
  (\<open>ord\<close> of each character); lists compare lexicographically, as \<open>str\<close> does.
  The code points the source names: \<open>\n\<close> 10, space 32, \<open>,\<close> 44, \<open>-\<close> 45, \<open>.\<close> 46,
  \<open>0\<close> 48, \<open>;\<close> 59, and the Cyrillic letters of the currency marker, U+0440 (1088),
  U+0443 (1091) and U+0431 (1073).
\<close>

type_synonym ustring = "nat list"

text \<open>
  What the handlers call but the repository does not define is a parameter of the model:
  the Unicode tables behind \<open>str.strip\<close>, \<open>\s\<close>, \<open>\d\<close> and \<open>str.lower\<close>, and the
  arithmetic of \<open>float\<close> (conversion of a decimal literal, \<open>round(x, 2)\<close>, the summation
  of pandas in \<open>groupby(...).sum()\<close> and in \<open>Series.sum()\<close>, \<open>SUM\<close> of SQLite, the
  addition \<open>+=\<close> of two floats, the format \<open>.2f\<close>). \<open>'f\<close> is the type of floats; only its
  order and its zero are used by the source.
\<close>

record 'f runtime =
  u_isspace :: "nat \<Rightarrow> bool"
  u_isdecimal :: "nat \<Rightarrow> bool"
  u_digit :: "nat \<Rightarrow> nat"
  str_lower :: "ustring \<Rightarrow> ustring"
  float_lit :: "rat \<Rightarrow> 'f"
  round_2 :: "'f \<Rightarrow> 'f"
  group_sum :: "'f list \<Rightarrow> 'f"
  series_sum :: "'f list \<Rightarrow> 'f"
  sql_sum :: "'f list \<Rightarrow> 'f"
  float_add :: "'f \<Rightarrow> 'f \<Rightarrow> 'f"
  format_2f :: "'f \<Rightarrow> ustring"

text \<open>\<open>s.strip()\<close>: whitespace removed at both ends.\<close>

definition strip :: "'f runtime \<Rightarrow> ustring \<Rightarrow> ustring" where
  "strip rt s = rev (dropWhile (u_isspace rt) (rev (dropWhile (u_isspace rt) s)))"

section \<open>Splitting a message into entries\<close>

text \<open>The separator class \<open>[\n,;]\<close> of \<open>re.split\<close>.\<close>

definition is_sep :: "nat \<Rightarrow> bool" where
  "is_sep c = (c = 10 \<or> c = 44 \<or> c = 59)"

text \<open>
  \<open>re.split(r'[\n,;]+', text)\<close>: the pieces between maximal runs of separators; a run at
  the start or at the end gives an empty piece there.
\<close>

function re_split :: "ustring \<Rightarrow> ustring list" where
  "re_split s =
     (let piece = takeWhile (\<lambda>c. \<not> is_sep c) s;
          rest = dropWhile (\<lambda>c. \<not> is_sep c) s
      in if rest = [] then [piece] else piece # re_split (dropWhile is_sep rest))"
  by pat_completeness auto
termination
proof (relation "measure length")
  show "wf (measure length)" by simp
next
  fix s :: ustring and piece rest
  assume r: "rest = dropWhile (\<lambda>c. \<not> is_sep c) s" and ne: "rest \<noteq> []"
  have "length (dropWhile is_sep rest) \<le> length rest"
    by (rule length_dropWhile_le)
  moreover have "is_sep (hd rest)"
    using r ne hd_dropWhile [of "\<lambda>c. \<not> is_sep c" s] by auto
  then have "dropWhile is_sep rest = dropWhile is_sep (tl rest)"
    using ne by (cases rest) auto
  then have "length (dropWhile is_sep rest) < length rest"
    using ne length_dropWhile_le [of is_sep "tl rest"] by (cases rest) auto
  moreover have "length rest \<le> length s"
    using r by (simp add: length_dropWhile_le)
  ultimately show "(dropWhile is_sep rest, s) \<in> measure length" by simp
qed

declare re_split.simps [simp del]

text \<open>
  \<open>entries = [entry.strip() for entry in entries if entry.strip()]\<close> applied to the
  stripped message text.
\<close>

definition split_entries :: "'f runtime \<Rightarrow> ustring \<Rightarrow> ustring list" where
  "split_entries rt text =
     map (strip rt) (filter (\<lambda>entry. strip rt entry \<noteq> []) (re_split text))"

section \<open>The entry pattern\<close>

text \<open>
  The pattern \<open>^([\d,\.]+)\s*[C]*\s+(.+)$\<close>, where \<open>C\<close> stands for the three Cyrillic
  letters of the currency marker, is a sequence of character classes, each
  repeated greedily at least a given number of times. \<open>re_match\<close> is the backtracking
  matcher of \<open>re.match\<close> on such a sequence: each class first takes the longest run it
  can and gives characters back one at a time while the rest of the pattern fails. The
  result is the text matched by every class, in order. \<open>$\<close> matches at the end of the
  text and before a final newline.
\<close>

type_synonym atom = "(nat \<Rightarrow> bool) \<times> nat"

fun first_some :: "('a \<Rightarrow> 'b option) \<Rightarrow> 'a list \<Rightarrow> 'b option" where
  "first_some f [] = None"
| "first_some f (k # ks) = (case f k of Some r \<Rightarrow> Some r | None \<Rightarrow> first_some f ks)"

primrec re_match :: "atom list \<Rightarrow> ustring \<Rightarrow> ustring list option" where
  "re_match [] = (\<lambda>s. if s = [] \<or> s = [10] then Some [] else None)"
| "re_match (a # as) = (\<lambda>s.
     first_some (\<lambda>k. map_option (\<lambda>gs. take k s # gs) (re_match as (drop k s)))
       (rev [snd a ..< Suc (length (takeWhile (fst a) s))]))"

definition amount_char :: "'f runtime \<Rightarrow> nat \<Rightarrow> bool" where
  "amount_char rt c = (u_isdecimal rt c \<or> c = 44 \<or> c = 46)"

definition currency_char :: "nat \<Rightarrow> bool" where
  "currency_char c = (c = 1088 \<or> c = 1091 \<or> c = 1073)"

definition entry_pattern :: "'f runtime \<Rightarrow> atom list" where
  "entry_pattern rt =
     [(amount_char rt, 1), (u_isspace rt, 0), (currency_char, 0), (u_isspace rt, 1),
      (\<lambda>c. c \<noteq> 10, 1)]"

section \<open>Parsing one entry\<close>

text \<open>\<open>match.group(1).replace(',', '.')\<close>.\<close>

definition replace_comma :: "ustring \<Rightarrow> ustring" where
  "replace_comma s = map (\<lambda>c. if c = 44 then 46 else c) s"

text \<open>
  \<open>float(amount_str)\<close> on the texts group 1 can hold, decimal digits and dots: digits with
  at most one dot and at least one digit convert, anything else raises \<open>ValueError\<close>
  (\<open>None\<close>). The value of the literal is exact here; \<open>float_lit\<close> makes it a float.
\<close>

definition digits_value :: "'f runtime \<Rightarrow> ustring \<Rightarrow> nat" where
  "digits_value rt ds = foldl (\<lambda>acc c. 10 * acc + u_digit rt c) 0 ds"

definition literal_value :: "'f runtime \<Rightarrow> ustring \<Rightarrow> ustring \<Rightarrow> rat" where
  "literal_value rt ip fp = of_nat (digits_value rt (ip @ fp)) / 10 ^ length fp"

definition py_float :: "'f runtime \<Rightarrow> ustring \<Rightarrow> 'f option" where
  "py_float rt s =
     (let ip = takeWhile (u_isdecimal rt) s
      in case dropWhile (u_isdecimal rt) s of
           [] \<Rightarrow> if ip = [] then None else Some (float_lit rt (literal_value rt ip []))
         | c # fp \<Rightarrow>
             if c = 46 \<and> list_all (u_isdecimal rt) fp \<and> (ip \<noteq> [] \<or> fp \<noteq> [])
             then Some (float_lit rt (literal_value rt ip fp)) else None)"

text \<open>
  The outcome of one entry, the body of the loop of \<open>handle_expense\<close>: a row to insert
  (category, amount) or an error line, which holds the entry as the user wrote it and one
  of the two reasons of the source: wrong format (no match) or amount error (the
  \<open>except\<close> branch).
\<close>

datatype reason = BadFormat | BadAmount

datatype 'f outcome = Stored ustring 'f | ParseError ustring reason

definition parse_entry :: "('f::{linorder,zero}) runtime \<Rightarrow> ustring \<Rightarrow> 'f outcome" where
  "parse_entry rt entry =
     (case re_match (entry_pattern rt) (str_lower rt entry) of
        Some [g1, w1, cur, w2, g2] \<Rightarrow>
          (case py_float rt (replace_comma g1) of
             None \<Rightarrow> ParseError entry BadAmount
           | Some amount \<Rightarrow>
               if amount \<le> 0 then ParseError entry BadAmount
               else Stored (strip rt g2) (round_2 rt amount))
      | _ \<Rightarrow> ParseError entry BadFormat)"

section \<open>Dates\<close>

text \<open>
  \<open>datetime.date\<close>: year, month and day, ordered as the triple. The constructor raises
  \<open>OverflowError\<close> on an argument that is no C int and \<open>ValueError\<close> outside
  \<open>MINYEAR = 1\<close> .. \<open>MAXYEAR = 9999\<close>, outside the months 1 .. 12 and outside the days
  of the month.
\<close>

record date =
  year :: int
  month :: int
  day :: int

datatype py_error = ValueError | OverflowError

definition date_key :: "date \<Rightarrow> int \<times> int \<times> int" where
  "date_key d = (year d, month d, day d)"

definition is_leap :: "int \<Rightarrow> bool" where
  "is_leap y = (y mod 4 = 0 \<and> (y mod 100 \<noteq> 0 \<or> y mod 400 = 0))"

definition days_in_month :: "int \<Rightarrow> int \<Rightarrow> int" where
  "days_in_month y m =
     (if m = 2 then (if is_leap y then 29 else 28)
      else if m = 4 \<or> m = 6 \<or> m = 9 \<or> m = 11 then 30 else 31)"

definition c_int :: "int \<Rightarrow> bool" where
  "c_int x = (- 2147483648 \<le> x \<and> x \<le> 2147483647)"

definition mk_date :: "int \<Rightarrow> int \<Rightarrow> int \<Rightarrow> py_error + date" where
  "mk_date y m d =
     (if \<not> (c_int y \<and> c_int m \<and> c_int d) then Inl OverflowError
      else if y < 1 \<or> 9999 < y then Inl ValueError
      else if m < 1 \<or> 12 < m then Inl ValueError
      else if d < 1 \<or> days_in_month y m < d then Inl ValueError
      else Inr \<lparr>year = y, month = m, day = d\<rparr>)"

text \<open>
  \<open>dt + relativedelta(months=k)\<close> of dateutil, for \<open>k\<close> from -12 to 12: the month moves
  by \<open>k\<close> and carries into the year, the day is cut to the length of the new month, and
  \<open>dt.replace\<close> builds the date, raising as the constructor does.
  \<open>dt - relativedelta(months=1)\<close> is \<open>dt + relativedelta(months=-1)\<close>.
\<close>

definition add_months :: "date \<Rightarrow> int \<Rightarrow> py_error + date" where
  "add_months dt k =
     (let m0 = month dt + k;
          y = (if 12 < m0 then year dt + 1 else if m0 < 1 then year dt - 1 else year dt);
          m = (if 12 < m0 then m0 - 12 else if m0 < 1 then m0 + 12 else m0);
          d = min (days_in_month y m) (day dt)
      in mk_date y m d)"

section \<open>The ledger and \<open>handle_expense\<close>\<close>

text \<open>
  A row of the table \<open>expenses\<close>; the table is the list of its rows in insertion order
  (the position stands for \<open>id\<close>). \<open>created_at\<close> is a date and the second of that day.
\<close>

record 'f expense =
  user_id :: int
  category :: ustring
  amount :: 'f
  created_at :: "date \<times> nat"

datatype reply_part = Added nat | Errors "(ustring \<times> reason) list" | NothingRecognised

datatype reply = EmptyMessage | Response "reply_part list"

text \<open>
  The loop over the entries with its three variables: \<open>success_count\<close>, \<open>errors\<close> and
  the table. \<open>now\<close> is \<open>CURRENT_TIMESTAMP\<close>, taken as one value for the whole message.
  The insert is taken to succeed, so the \<open>except\<close> branch is entered only from \<open>float\<close>
  and from the check of the sign.
\<close>

fun expense_loop ::
  "('f::{linorder,zero}) runtime \<Rightarrow> date \<times> nat \<Rightarrow> int \<Rightarrow> ustring list \<Rightarrow>
   nat \<times> (ustring \<times> reason) list \<times> 'f expense list \<Rightarrow>
   nat \<times> (ustring \<times> reason) list \<times> 'f expense list" where
  "expense_loop rt now uid [] st = st"
| "expense_loop rt now uid (entry # entries) (success_count, errors, db) =
     expense_loop rt now uid entries
       (case parse_entry rt entry of
          ParseError e r \<Rightarrow> (success_count, errors @ [(e, r)], db)
        | Stored cat amt \<Rightarrow>
            (success_count + 1, errors,
             db @ [\<lparr>user_id = uid, category = cat, amount = amt, created_at = now\<rparr>]))"

text \<open>
  \<open>handle_expense\<close>: the reply sent to the user (\<open>None\<close> when the handler returns
  without answering) and the table after the commit.
\<close>

definition handle_expense ::
  "('f::{linorder,zero}) runtime \<Rightarrow> date \<times> nat \<Rightarrow> int \<Rightarrow> ustring \<Rightarrow> 'f expense list \<Rightarrow>
   reply option \<times> 'f expense list" where
  "handle_expense rt now uid message_text db =
     (let text = strip rt message_text
      in if text = [] then (None, db)
         else
           let entries = split_entries rt text
           in if entries = [] then (Some EmptyMessage, db)
              else
                case expense_loop rt now uid entries (0, [], db) of
                  (success_count, errors, db') \<Rightarrow>
                    let response =
                          (if 0 < success_count then [Added success_count] else []) @
                          (if errors \<noteq> [] then [Errors errors] else [])
                    in (Some (Response (if response = [] then [NothingRecognised]
                                        else response)), db'))"

text \<open>The outcomes of the entries of a message, in input order.\<close>

definition outcomes :: "('f::{linorder,zero}) runtime \<Rightarrow> ustring \<Rightarrow> 'f outcome list" where
  "outcomes rt message_text =
     map (parse_entry rt) (split_entries rt (strip rt message_text))"

section \<open>Reports\<close>

text \<open>
  What the handlers send. Message texts are kept as the values they are formatted from.
  The transport, the store and the chart renderer are taken to succeed.
\<close>

datatype callback =
    CalPrev int int string
  | CalNext int int string
  | CalDay int int int string
  | CalSingle int int int

record keyboard =
  prev_button :: callback
  next_button :: callback
  day_buttons :: "callback list"
  single_button :: "callback option"

record report_text =
  period :: "date \<times> date option"
  category_lines :: "(ustring \<times> ustring) list"
  total_line :: ustring

datatype 'f effect =
    AnswerCallback
  | AnswerAlert
  | EditNoStart
  | DeleteMessage
  | SendCalendar int keyboard bool
  | SendNoExpenses int
  | SendReport int report_text
  | SendChart int "(ustring \<times> 'f) list"

text \<open>
  The query of \<open>generate_report_for_period\<close>: the rows of the user whose date lies in
  the closed range, ordered by \<open>created_at\<close>.
\<close>

definition select_period ::
  "'f expense list \<Rightarrow> int \<Rightarrow> date \<Rightarrow> date \<Rightarrow> 'f expense list" where
  "select_period db chat_id start_date end_date =
     sort_key (\<lambda>r. (date_key (fst (created_at r)), snd (created_at r)))
       (filter (\<lambda>r. user_id r = chat_id \<and>
                     date_key start_date \<le> date_key (fst (created_at r)) \<and>
                     date_key (fst (created_at r)) \<le> date_key end_date) db)"

text \<open>
  \<open>df.groupby("category")["amount"].sum()\<close>: one entry per category, the categories in
  ascending order (\<open>sort=True\<close> is the default of \<open>groupby\<close>), each with the sum of its
  amounts in row order.
\<close>

definition groupby_sum :: "'f runtime \<Rightarrow> 'f expense list \<Rightarrow> (ustring \<times> 'f) list" where
  "groupby_sum rt rows =
     map (\<lambda>c. (c, group_sum rt (map amount (filter (\<lambda>r. category r = c) rows))))
       (sort (remdups (map category rows)))"

text \<open>
  \<open>sort_values(ascending=False)\<close>: pandas reverses the values, sorts them ascending and
  reverses the result. The sort is taken to keep equal values in their order, as the
  insertion sort NumPy uses on short arrays does.
\<close>

definition sort_values_desc :: "('k \<times> 'f::linorder) list \<Rightarrow> ('k \<times> 'f) list" where
  "sort_values_desc xs = rev (sort_key snd (rev xs))"

text \<open>\<open>f"{amt:.2f}".rstrip('0').rstrip('.')\<close>.\<close>

definition rstrip :: "nat \<Rightarrow> ustring \<Rightarrow> ustring" where
  "rstrip c s = rev (dropWhile (\<lambda>x. x = c) (rev s))"

definition display :: "'f runtime \<Rightarrow> 'f \<Rightarrow> ustring" where
  "display rt amt = rstrip 46 (rstrip 48 (format_2f rt amt))"

definition generate_report_for_period ::
  "('f::linorder) runtime \<Rightarrow> 'f expense list \<Rightarrow> int \<Rightarrow> date \<Rightarrow> date \<Rightarrow> 'f effect list" where
  "generate_report_for_period rt db chat_id start_date end_date =
     (let rows = select_period db chat_id start_date end_date
      in if rows = [] then [SendNoExpenses chat_id]
         else
           let summary = sort_values_desc (groupby_sum rt rows);
               total = series_sum rt (map snd summary)
           in [SendReport chat_id
                 \<lparr>period = (start_date,
                              if start_date \<noteq> end_date then Some end_date else None),
                  category_lines = map (\<lambda>(cat, amt). (display rt amt, cat)) summary,
                  total_line = display rt total\<rparr>,
               SendChart chat_id summary])"

section \<open>The statistics of the month and of all time\<close>

text \<open>
  The statement \<open>SELECT category, SUM(amount) ... GROUP BY category ORDER BY SUM(amount)
  DESC\<close> of \<open>show_month_stats\<close> and \<open>show_all_stats\<close>, on the rows its \<open>WHERE\<close> clause
  keeps: one row per category with the sum of its amounts, by sum descending. SQL leaves
  the order of rows with equal sums open; here they keep the order of their categories.
\<close>

definition select_sum_by_category ::
  "('f::linorder) runtime \<Rightarrow> 'f expense list \<Rightarrow> (ustring \<times> 'f) list" where
  "select_sum_by_category rt rows =
     sort_values_desc
       (map (\<lambda>c. (c, sql_sum rt (map amount (filter (\<lambda>r. category r = c) rows))))
          (sort (remdups (map category rows))))"

text \<open>
  The answer of both handlers: the notice that there are no expenses, or the lines and
  the total of the loop \<open>total = 0.0; for category, amount in rows: ... total += amount\<close>.
  \<open>show_month_stats\<close> compares \<open>strftime('%Y', created_at)\<close>, which has four digits, with
  \<open>str(current_year)\<close>, which has four digits from the year 1000 on, and the month in
  two digits on both sides.
\<close>

datatype stats_reply =
    NoExpensesThisMonth
  | NoExpensesYet
  | MonthStats int int "(ustring \<times> ustring) list" ustring
  | AllStats "(ustring \<times> ustring) list" ustring

definition show_month_stats ::
  "('f::{linorder,zero}) runtime \<Rightarrow> 'f expense list \<Rightarrow> int \<Rightarrow> int \<Rightarrow> int \<Rightarrow> stats_reply" where
  "show_month_stats rt db uid current_year current_month =
     (let rows = select_sum_by_category rt
                   (filter (\<lambda>r. user_id r = uid \<and>
                                 1000 \<le> current_year \<and>
                                 year (fst (created_at r)) = current_year \<and>
                                 month (fst (created_at r)) = current_month) db)
      in if rows = [] then NoExpensesThisMonth
         else MonthStats current_year current_month
                (map (\<lambda>(category, amount). (display rt amount, category)) rows)
                (display rt (foldl (float_add rt) 0 (map snd rows))))"

definition show_all_stats ::
  "('f::{linorder,zero}) runtime \<Rightarrow> 'f expense list \<Rightarrow> int \<Rightarrow> stats_reply" where
  "show_all_stats rt db uid =
     (let rows = select_sum_by_category rt (filter (\<lambda>r. user_id r = uid) db)
      in if rows = [] then NoExpensesYet
         else AllStats
                (map (\<lambda>(category, amount). (display rt amount, category)) rows)
                (display rt (foldl (float_add rt) 0 (map snd rows))))"

section \<open>The calendar\<close>

text \<open>
  \<open>send_calendar\<close>: the keyboard with the callback data of its buttons (the cells
  without a day carry \<open>ignore\<close> and do not reach the handler) and the word of the
  prompt, which depends on \<open>mode == "start"\<close>.
\<close>

definition send_calendar :: "int \<Rightarrow> date \<Rightarrow> string \<Rightarrow> 'f effect" where
  "send_calendar chat_id target_date mode =
     SendCalendar chat_id
       \<lparr>prev_button = CalPrev (year target_date) (month target_date) mode,
        next_button = CalNext (year target_date) (month target_date) mode,
        day_buttons =
          map (\<lambda>d. CalDay (year target_date) (month target_date) d mode)
            [1 .. days_in_month (year target_date) (month target_date)],
        single_button =
          (if mode = ''start''
           then Some (CalSingle (year target_date) (month target_date) (day target_date))
           else None)\<rparr>
       (mode = ''start'')"

text \<open>
  The state of the bot: the dictionary \<open>user_selections\<close> and what has been sent so far.
\<close>

record selection =
  start :: date

record 'f world =
  user_selections :: "int \<rightharpoonup> selection"
  outbox :: "'f effect list"

definition emit :: "'f effect list \<Rightarrow> 'f world \<Rightarrow> 'f world" where
  "emit es w = w\<lparr>outbox := outbox w @ es\<rparr>"

text \<open>
  \<open>handle_calendar\<close> on the callback data, already split at \<open>_\<close> and converted by
  \<open>int\<close>. The result is \<open>Inl\<close> of the exception when the handler raises, with the state
  as it was left.
\<close>

definition handle_calendar ::
  "('f::linorder) runtime \<Rightarrow> 'f expense list \<Rightarrow> int \<Rightarrow> callback \<Rightarrow> 'f world \<Rightarrow>
   (py_error + unit) \<times> 'f world" where
  "handle_calendar rt db chat_id cb w0 =
     (let w = emit [AnswerCallback] w0
      in case cb of
           CalPrev y m mode \<Rightarrow>
             (case mk_date y m 1 of
                Inl e \<Rightarrow> (Inl e, w)
              | Inr d \<Rightarrow>
                  (case add_months d (- 1) of
                     Inl e \<Rightarrow> (Inl e, w)
                   | Inr new_date \<Rightarrow>
                       (Inr (), emit [send_calendar chat_id new_date mode, DeleteMessage] w)))
         | CalNext y m mode \<Rightarrow>
             (case mk_date y m 1 of
                Inl e \<Rightarrow> (Inl e, w)
              | Inr d \<Rightarrow>
                  (case add_months d 1 of
                     Inl e \<Rightarrow> (Inl e, w)
                   | Inr new_date \<Rightarrow>
                       (Inr (), emit [send_calendar chat_id new_date mode, DeleteMessage] w)))
         | CalDay y m d mode \<Rightarrow>
             (case mk_date y m d of
                Inl e \<Rightarrow> (Inl e, w)
              | Inr selected \<Rightarrow>
                  if mode = ''start'' then
                    (Inr (),
                     emit [DeleteMessage, send_calendar chat_id selected ''end'']
                       (w\<lparr>user_selections :=
                            (user_selections w)(chat_id \<mapsto> \<lparr>start = selected\<rparr>)\<rparr>))
                  else if mode = ''end'' then
                    (case user_selections w chat_id of
                       None \<Rightarrow> (Inr (), emit [EditNoStart] w)
                     | Some sel \<Rightarrow>
                         if date_key selected < date_key (start sel)
                         then (Inr (), emit [AnswerAlert] w)
                         else
                           (Inr (),
                            (emit (generate_report_for_period rt db chat_id (start sel)
                                     selected) w)
                              \<lparr>user_selections := (user_selections w)(chat_id := None)\<rparr>))
                  else (Inr (), w))
         | CalSingle y m d \<Rightarrow>
             (case mk_date y m d of
                Inl e \<Rightarrow> (Inl e, w)
              | Inr selected \<Rightarrow>
                  (Inr (),
                   emit (generate_report_for_period rt db chat_id selected selected) w)))"

section \<open>A runtime to evaluate with\<close>

text \<open>
  A concrete runtime for the examples: the whitespace of CPython, the ASCII digits, the
  lower case of the ASCII and of the basic Cyrillic capitals, and exact rational
  arithmetic in place of doubles (rounding to two places is half-even on the exact
  value). It agrees with CPython on the texts and amounts of the examples below, whose
  amounts are doubles with an exact decimal form.
\<close>

definition ref_isspace :: "nat \<Rightarrow> bool" where
  "ref_isspace c =
     (9 \<le> c \<and> c \<le> 13 \<or> 28 \<le> c \<and> c \<le> 32 \<or> c = 133 \<or> c = 160 \<or> c = 5760 \<or>
      8192 \<le> c \<and> c \<le> 8202 \<or> c = 8232 \<or> c = 8233 \<or> c = 8239 \<or> c = 8287 \<or> c = 12288)"

definition ref_lower_char :: "nat \<Rightarrow> nat" where
  "ref_lower_char c =
     (if 65 \<le> c \<and> c \<le> 90 then c + 32
      else if 1040 \<le> c \<and> c \<le> 1071 then c + 32
      else if 1024 \<le> c \<and> c \<le> 1039 then c + 80
      else c)"

definition round_half_even :: "rat \<Rightarrow> int" where
  "round_half_even x =
     (let n = \<lfloor>x\<rfloor>; r = x - of_int n
      in if r < 1 / 2 then n else if 1 / 2 < r then n + 1
         else if even n then n else n + 1)"

fun digits_of :: "nat \<Rightarrow> ustring" where
  "digits_of n = (if n < 10 then [48 + n] else digits_of (n div 10) @ [48 + n mod 10])"

declare digits_of.simps [simp del]

definition ref_format_2f :: "rat \<Rightarrow> ustring" where
  "ref_format_2f x =
     (let n = nat (round_half_even (\<bar>x\<bar> * 100))
      in (if x < 0 then [45] else []) @ digits_of (n div 100) @
         [46, 48 + (n mod 100) div 10, 48 + n mod 10])"

definition ref_runtime :: "rat runtime" where
  "ref_runtime =
     \<lparr>u_isspace = ref_isspace,
      u_isdecimal = (\<lambda>c. 48 \<le> c \<and> c \<le> 57),
      u_digit = (\<lambda>c. c - 48),
      str_lower = map ref_lower_char,
      float_lit = (\<lambda>x. x),
      round_2 = (\<lambda>x. of_int (round_half_even (x * 100)) / 100),
      group_sum = sum_list,
      series_sum = sum_list,
      sql_sum = sum_list,
      float_add = (+),
      format_2f = ref_format_2f\<rparr>"

section \<open>Doubles\<close>

text \<open>
  The floats of CPython are IEEE 754 doubles. A finite double is the rational number it
  stands for, and the result of an operation is the exact result rounded to the nearest
  double, ties to the even mantissa: 53 bits of mantissa, steps of \<open>2 ^ - 1074\<close> at
  the small end. Results beyond the largest double, which CPython turns into \<open>inf\<close>,
  are outside this runtime.
\<close>

fun bit_length :: "nat \<Rightarrow> nat" where
  "bit_length n = (if n = 0 then 0 else Suc (bit_length (n div 2)))"

declare bit_length.simps [simp del]

text \<open>For \<open>x > 0\<close>, the \<open>e\<close> with \<open>2 ^ e \<le> x < 2 ^ (e + 1)\<close>.\<close>

definition exponent :: "rat \<Rightarrow> int" where
  "exponent x =
     (if 1 \<le> x then int (bit_length (nat \<lfloor>x\<rfloor>)) - 1
      else - int (bit_length (nat (\<lceil>1 / x\<rceil> - 1))))"

definition pow2 :: "int \<Rightarrow> rat" where
  "pow2 p = (if 0 \<le> p then 2 ^ nat p else 1 / 2 ^ nat (- p))"

definition round_double :: "rat \<Rightarrow> rat" where
  "round_double x =
     (if x = 0 then 0
      else
        let ulp = pow2 (max (exponent \<bar>x\<bar> - 52) (- 1074))
        in sgn x * of_int (round_half_even (\<bar>x\<bar> / ulp)) * ulp)"

definition double_add :: "rat \<Rightarrow> rat \<Rightarrow> rat" where
  "double_add a b = round_double (a + b)"




text \<open>Example data: a day, and a row of user 7 on that day.\<close>

abbreviation march_10 :: date where
  "march_10 \<equiv> \<lparr>year = 2024, month = 3, day = 10\<rparr>"

abbreviation row :: "ustring \<Rightarrow> rat \<Rightarrow> nat \<Rightarrow> rat expense" where
  "row cat amt sec \<equiv> \<lparr>user_id = 7, category = cat, amount = amt, created_at = (march_10, sec)\<rparr>"




section \<open>Facts about dates\<close>

lemma mk_date_Inr:
  "mk_date y m d = Inr s \<Longrightarrow> s = \<lparr>year = y, month = m, day = d\<rparr>"
  by (simp add: mk_date_def split: if_splits)

lemma mk_date_2024_3_5:
  "mk_date 2024 3 5 = Inr \<lparr>year = 2024, month = 3, day = 5\<rparr>"
  by (simp add: mk_date_def c_int_def days_in_month_def)

lemma mk_date_2024_3_10:
  "mk_date 2024 3 10 = Inr \<lparr>year = 2024, month = 3, day = 10\<rparr>"
  by (simp add: mk_date_def c_int_def days_in_month_def)

lemma report_of_empty_table:
  "generate_report_for_period rt [] chat_id s e = [SendNoExpenses chat_id]"
  by (simp add: generate_report_for_period_def select_period_def)

lemma mk_date_first:
  "1 \<le> y \<Longrightarrow> y \<le> 9999 \<Longrightarrow> 1 \<le> m \<Longrightarrow> m \<le> 12 \<Longrightarrow>
   mk_date y m 1 = Inr \<lparr>year = y, month = m, day = 1\<rparr>"
  by (simp add: mk_date_def c_int_def days_in_month_def)

lemma days_in_month_pos: "1 \<le> days_in_month y m"
  by (simp add: days_in_month_def)

lemma add_months_prev:
  "1 \<le> y \<Longrightarrow> y \<le> 9999 \<Longrightarrow> 1 \<le> m \<Longrightarrow> m \<le> 12 \<Longrightarrow> \<not> (y = 1 \<and> m = 1) \<Longrightarrow>
   add_months \<lparr>year = y, month = m, day = 1\<rparr> (- 1) =
     Inr (if m = 1 then \<lparr>year = y - 1, month = 12, day = 1\<rparr>
          else \<lparr>year = y, month = m - 1, day = 1\<rparr>)"
  using days_in_month_pos [of "y - 1" 12] days_in_month_pos [of y "m - 1"]
  by (cases "m = 1") (simp_all add: add_months_def Let_def mk_date_def c_int_def min_def)

lemma add_months_next:
  "1 \<le> y \<Longrightarrow> y \<le> 9999 \<Longrightarrow> 1 \<le> m \<Longrightarrow> m \<le> 12 \<Longrightarrow> \<not> (y = 9999 \<and> m = 12) \<Longrightarrow>
   add_months \<lparr>year = y, month = m, day = 1\<rparr> 1 =
     Inr (if m = 12 then \<lparr>year = y + 1, month = 1, day = 1\<rparr>
          else \<lparr>year = y, month = m + 1, day = 1\<rparr>)"
  using days_in_month_pos [of "y + 1" 1] days_in_month_pos [of y "m + 1"]
  by (cases "m = 12") (simp_all add: add_months_def Let_def mk_date_def c_int_def min_def)

lemma handle_prev:
  "mk_date y m 1 = Inr d0 \<Longrightarrow> add_months d0 (- 1) = Inr nd \<Longrightarrow>
   handle_calendar rt db chat_id (CalPrev y m mode) w =
     (Inr (), w\<lparr>outbox := outbox w @
                  [AnswerCallback, send_calendar chat_id nd mode, DeleteMessage]\<rparr>)"
  by (simp add: handle_calendar_def emit_def Let_def)

lemma handle_next:
  "mk_date y m 1 = Inr d0 \<Longrightarrow> add_months d0 1 = Inr nd \<Longrightarrow>
   handle_calendar rt db chat_id (CalNext y m mode) w =
     (Inr (), w\<lparr>outbox := outbox w @
                  [AnswerCallback, send_calendar chat_id nd mode, DeleteMessage]\<rparr>)"
  by (simp add: handle_calendar_def emit_def Let_def)

lemma next_button_send_calendar:
  "send_calendar chat_id p mode = SendCalendar c kb flag \<Longrightarrow>
   next_button kb = CalNext (year p) (month p) mode"
  by (auto simp add: send_calendar_def)

lemma prev_button_send_calendar:
  "send_calendar chat_id p mode = SendCalendar c kb flag \<Longrightarrow>
   prev_button kb = CalPrev (year p) (month p) mode"
  by (auto simp add: send_calendar_def)

lemma mk_date_2024_3_1:
  "mk_date 2024 3 1 = Inr \<lparr>year = 2024, month = 3, day = 1\<rparr>"
  by (simp add: mk_date_def c_int_def days_in_month_def)

lemma add_months_2024_3_prev:
  "add_months \<lparr>year = 2024, month = 3, day = 1\<rparr> (- 1) = Inr \<lparr>year = 2024, month = 2, day = 1\<rparr>"
  by (simp add: add_months_def Let_def mk_date_def c_int_def days_in_month_def is_leap_def)

lemma add_months_2024_3_next:
  "add_months \<lparr>year = 2024, month = 3, day = 1\<rparr> 1 = Inr \<lparr>year = 2024, month = 4, day = 1\<rparr>"
  by (simp add: add_months_def Let_def mk_date_def c_int_def days_in_month_def)

section \<open>Picking the end date\<close>

text \<open>
  Claim C2. The user has a selection with start date \<open>S\<close> and picks a valid day in the
  end calendar. A day before \<open>S\<close> is rejected: the handler answers with the alert and
  returns, and the state differs from the one before only by what was sent, so
  \<open>user_selections\<close> is untouched. The day \<open>S\<close> itself is accepted: the report for the
  range from \<open>S\<close> to \<open>S\<close> is sent and the selection of the user is removed.
\<close>

theorem end_pick_validated:
  assumes "user_selections w chat_id = Some sel" and "mk_date y m d = Inr selected"
  shows "(date_key selected < date_key (start sel) \<longrightarrow>
            handle_calendar rt db chat_id (CalDay y m d ''end'') w =
              (Inr (), w\<lparr>outbox := outbox w @ [AnswerCallback, AnswerAlert]\<rparr>)) \<and>
         (selected = start sel \<longrightarrow>
            handle_calendar rt db chat_id (CalDay y m d ''end'') w =
              (Inr (), w\<lparr>user_selections := (user_selections w)(chat_id := None),
                         outbox := outbox w @ AnswerCallback #
                           generate_report_for_period rt db chat_id selected selected\<rparr>))"
  using assms by (simp add: handle_calendar_def emit_def Let_def)

theorem end_pick_validated_witness:
  "handle_calendar ref_runtime [] 7 (CalDay 2024 3 5 ''end'')
     \<lparr>user_selections = [7 \<mapsto> \<lparr>start = \<lparr>year = 2024, month = 3, day = 10\<rparr>\<rparr>],
      outbox = []\<rparr>
     = (Inr (),
        \<lparr>user_selections = [7 \<mapsto> \<lparr>start = \<lparr>year = 2024, month = 3, day = 10\<rparr>\<rparr>],
         outbox = [AnswerCallback, AnswerAlert]\<rparr>) \<and>
   handle_calendar ref_runtime [] 7 (CalDay 2024 3 10 ''end'')
     \<lparr>user_selections = [7 \<mapsto> \<lparr>start = \<lparr>year = 2024, month = 3, day = 10\<rparr>\<rparr>],
      outbox = []\<rparr>
     = (Inr (), \<lparr>user_selections = Map.empty,
                 outbox = [AnswerCallback, SendNoExpenses 7]\<rparr>)"
proof -
  let ?w = "\<lparr>user_selections = [7 \<mapsto> \<lparr>start = \<lparr>year = 2024, month = 3, day = 10\<rparr>\<rparr>],
             outbox = [] :: rat effect list\<rparr>"
  have s: "user_selections ?w 7 = Some \<lparr>start = \<lparr>year = 2024, month = 3, day = 10\<rparr>\<rparr>"
    by simp
  have before: "date_key \<lparr>year = 2024, month = 3, day = 5\<rparr>
                  < date_key (start \<lparr>start = \<lparr>year = 2024, month = 3, day = 10\<rparr>\<rparr>)"
    by (simp add: date_key_def)
  from end_pick_validated [OF s mk_date_2024_3_5, of ref_runtime "[]"] before
  have 1: "handle_calendar ref_runtime [] 7 (CalDay 2024 3 5 ''end'') ?w =
             (Inr (), ?w\<lparr>outbox := outbox ?w @ [AnswerCallback, AnswerAlert]\<rparr>)"
    by blast
  from end_pick_validated [OF s mk_date_2024_3_10, of ref_runtime "[]"]
  have 2: "handle_calendar ref_runtime [] 7 (CalDay 2024 3 10 ''end'') ?w =
             (Inr (), ?w\<lparr>user_selections := (user_selections ?w)(7 := None),
                          outbox := outbox ?w @ AnswerCallback #
                            generate_report_for_period ref_runtime [] 7
                              \<lparr>year = 2024, month = 3, day = 10\<rparr>
                              \<lparr>year = 2024, month = 3, day = 10\<rparr>\<rparr>)"
    by simp
  show ?thesis
    using 1 2 by (simp add: report_of_empty_table)
qed

section \<open>Confirming a single day\<close>

text \<open>
  Claim C10. The branch for the single-day button never reads or writes
  \<open>user_selections\<close>: whatever the button carries, the dictionary after the handler is
  the dictionary before it, so a selection in progress stays live. When the day is a
  valid date, the handler sends the report for the range from that day to that day and
  nothing else changes.
\<close>

theorem single_day_keeps_selection:
  "user_selections (snd (handle_calendar rt db chat_id (CalSingle y m d) w))
     = user_selections w \<and>
   (mk_date y m d = Inr selected \<longrightarrow>
      handle_calendar rt db chat_id (CalSingle y m d) w =
        (Inr (), w\<lparr>outbox := outbox w @ AnswerCallback #
                     generate_report_for_period rt db chat_id selected selected\<rparr>))"
  by (simp add: handle_calendar_def emit_def Let_def split: sum.splits)

theorem single_day_keeps_selection_witness:
  "user_selections (snd (handle_calendar ref_runtime [] 7 (CalSingle 2024 3 10)
      \<lparr>user_selections = [7 \<mapsto> \<lparr>start = \<lparr>year = 2024, month = 3, day = 5\<rparr>\<rparr>],
       outbox = []\<rparr>)) 7
     = Some \<lparr>start = \<lparr>year = 2024, month = 3, day = 5\<rparr>\<rparr> \<and>
   handle_calendar ref_runtime [] 7 (CalSingle 2024 3 10)
      \<lparr>user_selections = [7 \<mapsto> \<lparr>start = \<lparr>year = 2024, month = 3, day = 5\<rparr>\<rparr>],
       outbox = []\<rparr>
     = (Inr (), \<lparr>user_selections = [7 \<mapsto> \<lparr>start = \<lparr>year = 2024, month = 3, day = 5\<rparr>\<rparr>],
                 outbox = [AnswerCallback, SendNoExpenses 7]\<rparr>)"
  using single_day_keeps_selection [of ref_runtime "[]" 7 2024 3 10
      "\<lparr>user_selections = [7 \<mapsto> \<lparr>start = \<lparr>year = 2024, month = 3, day = 5\<rparr>\<rparr>],
        outbox = []\<rparr>"
      "\<lparr>year = 2024, month = 3, day = 10\<rparr>"]
    mk_date_2024_3_10
  by (simp add: report_of_empty_table)

section \<open>Navigation between months\<close>

text \<open>
  Claim C7, as amended. Let \<open>(y, m)\<close> be a month a date can have. Unless it is January
  of year 1, the previous-month button shows the calendar of the month before (December
  of the year before when \<open>m\<close> is January), and the next-month button of the calendar
  shown leads back to \<open>(y, m)\<close>. Unless it is December of year 9999, the next-month
  button shows the month after (January of the year after when \<open>m\<close> is December), and
  the previous-month button of the calendar shown leads back to \<open>(y, m)\<close>. Each step
  only adds to what was sent: \<open>user_selections\<close>, and so the start date, is untouched.
  At the two ends, the previous-month button of January of year 1 and the next-month
  button of December of year 9999, the handler raises \<open>ValueError\<close> after it has
  answered the callback: no calendar is shown and nothing else changes.
\<close>

theorem navigation_round_trip:
  fixes rt :: "('f::linorder) runtime"
  assumes "1 \<le> y" and "y \<le> 9999" and "1 \<le> m" and "m \<le> 12"
  defines "p \<equiv> if m = 1 then \<lparr>year = y - 1, month = 12, day = 1\<rparr>
                 else \<lparr>year = y, month = m - 1, day = 1\<rparr>"
    and "n \<equiv> if m = 12 then \<lparr>year = y + 1, month = 1, day = 1\<rparr>
                 else \<lparr>year = y, month = m + 1, day = 1\<rparr>"
  shows "(\<not> (y = 1 \<and> m = 1) \<longrightarrow>
            handle_calendar rt db chat_id (CalPrev y m mode) w =
              (Inr (), w\<lparr>outbox := outbox w @
                 [AnswerCallback, send_calendar chat_id p mode, DeleteMessage]\<rparr>) \<and>
            (\<forall>kb flag. send_calendar chat_id p mode = (SendCalendar chat_id kb flag :: 'f effect) \<longrightarrow>
               handle_calendar rt db chat_id (next_button kb) w' =
                 (Inr (), w'\<lparr>outbox := outbox w' @
                    [AnswerCallback,
                     send_calendar chat_id \<lparr>year = y, month = m, day = 1\<rparr> mode,
                     DeleteMessage]\<rparr>))) \<and>
         (\<not> (y = 9999 \<and> m = 12) \<longrightarrow>
            handle_calendar rt db chat_id (CalNext y m mode) w =
              (Inr (), w\<lparr>outbox := outbox w @
                 [AnswerCallback, send_calendar chat_id n mode, DeleteMessage]\<rparr>) \<and>
            (\<forall>kb flag. send_calendar chat_id n mode = (SendCalendar chat_id kb flag :: 'f effect) \<longrightarrow>
               handle_calendar rt db chat_id (prev_button kb) w' =
                 (Inr (), w'\<lparr>outbox := outbox w' @
                    [AnswerCallback,
                     send_calendar chat_id \<lparr>year = y, month = m, day = 1\<rparr> mode,
                     DeleteMessage]\<rparr>))) \<and>
         handle_calendar rt db chat_id (CalPrev 1 1 mode) w =
           (Inl ValueError, w\<lparr>outbox := outbox w @ [AnswerCallback]\<rparr>) \<and>
         handle_calendar rt db chat_id (CalNext 9999 12 mode) w =
           (Inl ValueError, w\<lparr>outbox := outbox w @ [AnswerCallback]\<rparr>)"
proof (intro conjI impI allI)
  assume ne: "\<not> (y = 1 \<and> m = 1)"
  have py: "1 \<le> year p" "year p \<le> 9999" "1 \<le> month p" "month p \<le> 12"
    using assms(1-4) ne by (auto simp add: p_def)
  have ret: "add_months \<lparr>year = year p, month = month p, day = 1\<rparr> 1
                = Inr \<lparr>year = y, month = m, day = 1\<rparr>"
    using add_months_next [OF py] assms(1-4) ne by (auto simp add: p_def)
  show 1: "handle_calendar rt db chat_id (CalPrev y m mode) w =
             (Inr (), w\<lparr>outbox := outbox w @
                [AnswerCallback, send_calendar chat_id p mode, DeleteMessage]\<rparr>)"
    unfolding p_def
    by (rule handle_prev [OF mk_date_first [OF assms(1-4)] add_months_prev [OF assms(1-4) ne]])
  fix kb flag
  assume "send_calendar chat_id p mode = (SendCalendar chat_id kb flag :: 'f effect)"
  then have "next_button kb = CalNext (year p) (month p) mode"
    by (rule next_button_send_calendar)
  then show "handle_calendar rt db chat_id (next_button kb) w' =
             (Inr (), w'\<lparr>outbox := outbox w' @
                [AnswerCallback, send_calendar chat_id \<lparr>year = y, month = m, day = 1\<rparr> mode,
                 DeleteMessage]\<rparr>)"
    using handle_next [OF mk_date_first [OF py] ret] by (simp only:)
next
  assume ne: "\<not> (y = 9999 \<and> m = 12)"
  have py: "1 \<le> year n" "year n \<le> 9999" "1 \<le> month n" "month n \<le> 12"
    using assms(1-4) ne by (auto simp add: n_def)
  have nn: "\<not> (year n = 1 \<and> month n = 1)"
    using assms(1-4) by (auto simp add: n_def)
  have ret: "add_months \<lparr>year = year n, month = month n, day = 1\<rparr> (- 1)
                = Inr \<lparr>year = y, month = m, day = 1\<rparr>"
    using add_months_prev [OF py nn] assms(1-4) ne by (auto simp add: n_def)
  show 1: "handle_calendar rt db chat_id (CalNext y m mode) w =
             (Inr (), w\<lparr>outbox := outbox w @
                [AnswerCallback, send_calendar chat_id n mode, DeleteMessage]\<rparr>)"
    unfolding n_def
    by (rule handle_next [OF mk_date_first [OF assms(1-4)] add_months_next [OF assms(1-4) ne]])
  fix kb flag
  assume "send_calendar chat_id n mode = (SendCalendar chat_id kb flag :: 'f effect)"
  then have "prev_button kb = CalPrev (year n) (month n) mode"
    by (rule prev_button_send_calendar)
  then show "handle_calendar rt db chat_id (prev_button kb) w' =
             (Inr (), w'\<lparr>outbox := outbox w' @
                [AnswerCallback, send_calendar chat_id \<lparr>year = y, month = m, day = 1\<rparr> mode,
                 DeleteMessage]\<rparr>)"
    using handle_prev [OF mk_date_first [OF py] ret] by (simp only:)
next
  show "handle_calendar rt db chat_id (CalPrev 1 1 mode) w =
          (Inl ValueError, w\<lparr>outbox := outbox w @ [AnswerCallback]\<rparr>)"
    by (simp add: handle_calendar_def emit_def Let_def mk_date_def c_int_def days_in_month_def
        add_months_def)
next
  show "handle_calendar rt db chat_id (CalNext 9999 12 mode) w =
          (Inl ValueError, w\<lparr>outbox := outbox w @ [AnswerCallback]\<rparr>)"
    by (simp add: handle_calendar_def emit_def Let_def mk_date_def c_int_def days_in_month_def
        add_months_def)
qed


theorem navigation_round_trip_witness:
  "handle_calendar ref_runtime [] 7 (CalPrev 2024 1 ''start'')
     \<lparr>user_selections = Map.empty, outbox = []\<rparr> =
     (Inr (), \<lparr>user_selections = Map.empty,
               outbox = [AnswerCallback,
                         send_calendar 7 \<lparr>year = 2023, month = 12, day = 1\<rparr> ''start'',
                         DeleteMessage]\<rparr>) \<and>
   handle_calendar ref_runtime [] 7 (CalNext 2023 12 ''start'')
     \<lparr>user_selections = Map.empty, outbox = []\<rparr> =
     (Inr (), \<lparr>user_selections = Map.empty,
               outbox = [AnswerCallback,
                         send_calendar 7 \<lparr>year = 2024, month = 1, day = 1\<rparr> ''start'',
                         DeleteMessage]\<rparr>) \<and>
   handle_calendar ref_runtime [] 7 (CalNext 2024 1 ''start'')
     \<lparr>user_selections = Map.empty, outbox = []\<rparr> =
     (Inr (), \<lparr>user_selections = Map.empty,
               outbox = [AnswerCallback,
                         send_calendar 7 \<lparr>year = 2024, month = 2, day = 1\<rparr> ''start'',
                         DeleteMessage]\<rparr>) \<and>
   handle_calendar ref_runtime [] 7 (CalPrev 2024 2 ''start'')
     \<lparr>user_selections = Map.empty, outbox = []\<rparr> =
     (Inr (), \<lparr>user_selections = Map.empty,
               outbox = [AnswerCallback,
                         send_calendar 7 \<lparr>year = 2024, month = 1, day = 1\<rparr> ''start'',
                         DeleteMessage]\<rparr>)"
proof -
  let ?w = "\<lparr>user_selections = Map.empty, outbox = [] :: rat effect list\<rparr>"
  have b: "(1::int) \<le> 2024" "(2024::int) \<le> 9999" "(1::int) \<le> 1" "(1::int) \<le> 12"
    by simp_all
  note t = navigation_round_trip [OF b, of ref_runtime "[]" 7 "''start''" ?w ?w]
  have k1: "send_calendar 7 \<lparr>year = 2023, month = 12, day = 1\<rparr> ''start'' =
              (SendCalendar 7
                 \<lparr>prev_button = CalPrev 2023 12 ''start'',
                  next_button = CalNext 2023 12 ''start'',
                  day_buttons = map (\<lambda>d. CalDay 2023 12 d ''start'') [1 .. days_in_month 2023 12],
                  single_button = Some (CalSingle 2023 12 1)\<rparr> True :: rat effect)"
    by (simp add: send_calendar_def)
  have k2: "send_calendar 7 \<lparr>year = 2024, month = 2, day = 1\<rparr> ''start'' =
              (SendCalendar 7
                 \<lparr>prev_button = CalPrev 2024 2 ''start'',
                  next_button = CalNext 2024 2 ''start'',
                  day_buttons = map (\<lambda>d. CalDay 2024 2 d ''start'') [1 .. days_in_month 2024 2],
                  single_button = Some (CalSingle 2024 2 1)\<rparr> True :: rat effect)"
    by (simp add: send_calendar_def)
  from t have 1: "handle_calendar ref_runtime [] 7 (CalPrev 2024 1 ''start'') ?w =
      (Inr (), ?w\<lparr>outbox := outbox ?w @ [AnswerCallback,
         send_calendar 7 \<lparr>year = 2023, month = 12, day = 1\<rparr> ''start'', DeleteMessage]\<rparr>)"
    by simp
  from t have "\<forall>kb flag. send_calendar 7 \<lparr>year = 2023, month = 12, day = 1\<rparr> ''start''
                   = (SendCalendar 7 kb flag :: rat effect) \<longrightarrow>
      handle_calendar ref_runtime [] 7 (next_button kb) ?w =
      (Inr (), ?w\<lparr>outbox := outbox ?w @ [AnswerCallback,
         send_calendar 7 \<lparr>year = 2024, month = 1, day = 1\<rparr> ''start'', DeleteMessage]\<rparr>)"
    by simp
  from this k1 have 2: "handle_calendar ref_runtime [] 7 (CalNext 2023 12 ''start'') ?w =
      (Inr (), ?w\<lparr>outbox := outbox ?w @ [AnswerCallback,
         send_calendar 7 \<lparr>year = 2024, month = 1, day = 1\<rparr> ''start'', DeleteMessage]\<rparr>)"
    by (metis keyboard.select_convs(2))
  from t have 3: "handle_calendar ref_runtime [] 7 (CalNext 2024 1 ''start'') ?w =
      (Inr (), ?w\<lparr>outbox := outbox ?w @ [AnswerCallback,
         send_calendar 7 \<lparr>year = 2024, month = 2, day = 1\<rparr> ''start'', DeleteMessage]\<rparr>)"
    by simp
  from t have "\<forall>kb flag. send_calendar 7 \<lparr>year = 2024, month = 2, day = 1\<rparr> ''start''
                   = (SendCalendar 7 kb flag :: rat effect) \<longrightarrow>
      handle_calendar ref_runtime [] 7 (prev_button kb) ?w =
      (Inr (), ?w\<lparr>outbox := outbox ?w @ [AnswerCallback,
         send_calendar 7 \<lparr>year = 2024, month = 1, day = 1\<rparr> ''start'', DeleteMessage]\<rparr>)"
    by simp
  from this k2 have 4: "handle_calendar ref_runtime [] 7 (CalPrev 2024 2 ''start'') ?w =
      (Inr (), ?w\<lparr>outbox := outbox ?w @ [AnswerCallback,
         send_calendar 7 \<lparr>year = 2024, month = 1, day = 1\<rparr> ''start'', DeleteMessage]\<rparr>)"
    by (metis keyboard.select_convs(1))
  show ?thesis
    using 1 2 3 4 by simp
qed

text \<open>
  The claim as stated, for every anchor month, fails at the first month of
  \<open>datetime.date\<close>: from January of year 1 the previous-month button raises
  \<open>ValueError\<close> and no calendar is shown, so no next step leads back; so does the
  next-month button from the last month, December of year 9999.
\<close>

theorem navigation_before_year_one_counterexample:
  "handle_calendar ref_runtime [] 7 (CalPrev 1 1 ''start'')
     \<lparr>user_selections = Map.empty, outbox = []\<rparr> =
     (Inl ValueError, \<lparr>user_selections = Map.empty, outbox = [AnswerCallback]\<rparr>) \<and>
   handle_calendar ref_runtime [] 7 (CalNext 9999 12 ''start'')
     \<lparr>user_selections = Map.empty, outbox = []\<rparr> =
     (Inl ValueError, \<lparr>user_selections = Map.empty, outbox = [AnswerCallback]\<rparr>)"
  by (simp add: handle_calendar_def emit_def Let_def mk_date_def c_int_def days_in_month_def
      add_months_def)


section \<open>Actions without a selection\<close>

text \<open>
  Claim C6, as amended. The user has no entry in \<open>user_selections\<close>. A valid day picked
  in the end calendar is answered with the notice that no start date was selected, and
  the dictionary stays as it was. A valid day picked in the start calendar creates the
  selection and shows the end calendar. The previous-month and next-month buttons do
  not look at the dictionary: they show the neighbouring month and report nothing.
  The single-day button needs no selection either: for a valid day it sends the report
  of that day, reports no error and leaves the dictionary as it was.
\<close>

theorem actions_without_selection:
  assumes "user_selections w chat_id = None"
  shows "(mk_date y m d = Inr selected \<longrightarrow>
            handle_calendar rt db chat_id (CalDay y m d ''end'') w =
              (Inr (), w\<lparr>outbox := outbox w @ [AnswerCallback, EditNoStart]\<rparr>)) \<and>
         (mk_date y m d = Inr selected \<longrightarrow>
            handle_calendar rt db chat_id (CalDay y m d ''start'') w =
              (Inr (), w\<lparr>user_selections := (user_selections w)(chat_id \<mapsto> \<lparr>start = selected\<rparr>),
                         outbox := outbox w @
                           [AnswerCallback, DeleteMessage,
                            send_calendar chat_id selected ''end'']\<rparr>)) \<and>
         (mk_date y m 1 = Inr d0 \<and> add_months d0 (- 1) = Inr nd \<longrightarrow>
            handle_calendar rt db chat_id (CalPrev y m mode) w =
              (Inr (), w\<lparr>outbox := outbox w @
                 [AnswerCallback, send_calendar chat_id nd mode, DeleteMessage]\<rparr>)) \<and>
         (mk_date y m 1 = Inr d0 \<and> add_months d0 1 = Inr nd \<longrightarrow>
            handle_calendar rt db chat_id (CalNext y m mode) w =
              (Inr (), w\<lparr>outbox := outbox w @
                 [AnswerCallback, send_calendar chat_id nd mode, DeleteMessage]\<rparr>)) \<and>
         (mk_date y m d = Inr selected \<longrightarrow>
            handle_calendar rt db chat_id (CalSingle y m d) w =
              (Inr (), w\<lparr>outbox := outbox w @ AnswerCallback #
                           generate_report_for_period rt db chat_id selected selected\<rparr>))"
  using assms
  by (simp add: handle_calendar_def emit_def Let_def)

theorem actions_without_selection_witness:
  "handle_calendar ref_runtime [] 7 (CalDay 2024 3 10 ''end'')
     \<lparr>user_selections = Map.empty, outbox = []\<rparr> =
     (Inr (), \<lparr>user_selections = Map.empty, outbox = [AnswerCallback, EditNoStart]\<rparr>) \<and>
   handle_calendar ref_runtime [] 7 (CalDay 2024 3 10 ''start'')
     \<lparr>user_selections = Map.empty, outbox = []\<rparr> =
     (Inr (), \<lparr>user_selections = [7 \<mapsto> \<lparr>start = \<lparr>year = 2024, month = 3, day = 10\<rparr>\<rparr>],
               outbox = [AnswerCallback, DeleteMessage,
                         send_calendar 7 \<lparr>year = 2024, month = 3, day = 10\<rparr> ''end'']\<rparr>) \<and>
   handle_calendar ref_runtime [] 7 (CalPrev 2024 3 ''end'')
     \<lparr>user_selections = Map.empty, outbox = []\<rparr> =
     (Inr (), \<lparr>user_selections = Map.empty,
               outbox = [AnswerCallback,
                         send_calendar 7 \<lparr>year = 2024, month = 2, day = 1\<rparr> ''end'',
                         DeleteMessage]\<rparr>) \<and>
   handle_calendar ref_runtime [] 7 (CalNext 2024 3 ''end'')
     \<lparr>user_selections = Map.empty, outbox = []\<rparr> =
     (Inr (), \<lparr>user_selections = Map.empty,
               outbox = [AnswerCallback,
                         send_calendar 7 \<lparr>year = 2024, month = 4, day = 1\<rparr> ''end'',
                         DeleteMessage]\<rparr>) \<and>
   handle_calendar ref_runtime [] 7 (CalSingle 2024 3 10)
     \<lparr>user_selections = Map.empty, outbox = []\<rparr> =
     (Inr (), \<lparr>user_selections = Map.empty,
               outbox = [AnswerCallback, SendNoExpenses 7]\<rparr>)"
proof -
  let ?w = "\<lparr>user_selections = Map.empty, outbox = [] :: rat effect list\<rparr>"
  have n: "user_selections ?w 7 = None"
    by simp
  show ?thesis
    using actions_without_selection [OF n, of 2024 3 10 "\<lparr>year = 2024, month = 3, day = 10\<rparr>"
        ref_runtime "[]" "\<lparr>year = 2024, month = 3, day = 1\<rparr>"
        "\<lparr>year = 2024, month = 2, day = 1\<rparr>" "''end''"]
      actions_without_selection [OF n, of 2024 3 10 "\<lparr>year = 2024, month = 3, day = 10\<rparr>"
        ref_runtime "[]" "\<lparr>year = 2024, month = 3, day = 1\<rparr>"
        "\<lparr>year = 2024, month = 4, day = 1\<rparr>" "''end''"]
      mk_date_2024_3_10 mk_date_2024_3_1 add_months_2024_3_prev add_months_2024_3_next
    by (simp add: report_of_empty_table)
qed

text \<open>
  The claim as stated fails for navigation and for the pick of a start day: with no
  selection, the previous-month button shows February 2024 without any error notice,
  and the pick of a start day changes the state.
\<close>

theorem navigation_without_selection_counterexample:
  "handle_calendar ref_runtime [] 7 (CalPrev 2024 3 ''end'')
     \<lparr>user_selections = Map.empty, outbox = []\<rparr> =
     (Inr (), \<lparr>user_selections = Map.empty,
               outbox = [AnswerCallback,
                         send_calendar 7 \<lparr>year = 2024, month = 2, day = 1\<rparr> ''end'',
                         DeleteMessage]\<rparr>) \<and>
   EditNoStart \<notin> set (outbox (snd (handle_calendar ref_runtime [] 7 (CalPrev 2024 3 ''end'')
     \<lparr>user_selections = Map.empty, outbox = []\<rparr>))) \<and>
   user_selections (snd (handle_calendar ref_runtime [] 7 (CalDay 2024 3 10 ''start'')
     \<lparr>user_selections = Map.empty, outbox = []\<rparr>)) 7
     = Some \<lparr>start = \<lparr>year = 2024, month = 3, day = 10\<rparr>\<rparr>"
proof -
  have 1: "handle_calendar ref_runtime [] 7 (CalPrev 2024 3 ''end'')
     \<lparr>user_selections = Map.empty, outbox = []\<rparr> =
     (Inr (), \<lparr>user_selections = Map.empty,
               outbox = [AnswerCallback,
                         send_calendar 7 \<lparr>year = 2024, month = 2, day = 1\<rparr> ''end'',
                         DeleteMessage]\<rparr>)"
    by (simp add: handle_prev [OF mk_date_2024_3_1 add_months_2024_3_prev])
  have 2: "user_selections (snd (handle_calendar ref_runtime [] 7 (CalDay 2024 3 10 ''start'')
     \<lparr>user_selections = Map.empty, outbox = []\<rparr>)) 7
     = Some \<lparr>start = \<lparr>year = 2024, month = 3, day = 10\<rparr>\<rparr>"
    by (simp add: handle_calendar_def emit_def Let_def mk_date_2024_3_10)
  show ?thesis
    by (simp only: 1 2) (simp add: send_calendar_def)
qed


section \<open>Facts about reports\<close>

lemma sort_key_Nil_iff: "sort_key f xs = [] \<longleftrightarrow> xs = []"
  by (cases xs) simp_all

lemma sort_values_desc_Nil: "sort_values_desc xs = [] \<longleftrightarrow> xs = []"
  by (simp add: sort_values_desc_def sort_key_Nil_iff)

lemma groupby_sum_Nil: "groupby_sum rt rows = [] \<longleftrightarrow> rows = []"
  by (simp add: groupby_sum_def sort_key_Nil_iff)

lemma set_sort_values_desc: "set (sort_values_desc xs) = set xs"
  by (simp add: sort_values_desc_def)

lemma sort_values_desc_sorted:
  "sorted_wrt (\<lambda>p q. snd q \<le> snd p) (sort_values_desc xs)"
proof -
  have "sorted (map snd (sort_key snd (rev xs)))"
    by (rule sorted_sort_key)
  then have "sorted_wrt (\<lambda>p q. snd p \<le> snd q) (sort_key snd (rev xs))"
    by (simp add: sorted_wrt_map)
  then show ?thesis
    by (simp add: sort_values_desc_def sorted_wrt_rev)
qed

lemma distinct_map_insort_key:
  "distinct (map f (insort_key g x xs)) \<longleftrightarrow> f x \<notin> f ` set xs \<and> distinct (map f xs)"
  by (induction xs) (auto simp add: set_insort_key)

lemma distinct_map_sort_key:
  "distinct (map f (sort_key g xs)) \<longleftrightarrow> distinct (map f xs)"
  by (induction xs) (simp_all add: distinct_map_insort_key)

lemma distinct_fst_sort_values_desc:
  "distinct (map fst (sort_values_desc xs)) \<longleftrightarrow> distinct (map fst xs)"
  by (simp add: sort_values_desc_def rev_map [symmetric] distinct_map_sort_key del: rev_map)

lemma groupby_sum_keys:
  "map fst (groupby_sum rt rows) = sort (remdups (map category rows))"
  by (simp add: groupby_sum_def comp_def)

lemma set_groupby_sum:
  "set (groupby_sum rt rows) =
     (\<lambda>c. (c, group_sum rt (map amount (filter (\<lambda>r. category r = c) rows)))) ` category ` set rows"
  by (simp add: groupby_sum_def)


lemma select_period_Nil:
  "select_period db chat_id s e = [] \<longleftrightarrow>
     (\<forall>r \<in> set db. \<not> (user_id r = chat_id \<and> date_key s \<le> date_key (fst (created_at r)) \<and>
                          date_key (fst (created_at r)) \<le> date_key e))"
  unfolding select_period_def sort_key_Nil_iff filter_empty_conv ..

lemma display_ref_1: "display ref_runtime 1 = [49]"
  by (simp add: display_def ref_runtime_def ref_format_2f_def round_half_even_def rstrip_def
      digits_of.simps)

lemma display_ref_2: "display ref_runtime 2 = [50]"
  by (simp add: display_def ref_runtime_def ref_format_2f_def round_half_even_def rstrip_def
      digits_of.simps)

lemma display_ref_4: "display ref_runtime 4 = [52]"
  by (simp add: display_def ref_runtime_def ref_format_2f_def round_half_even_def rstrip_def
      digits_of.simps)

lemma display_ref_5: "display ref_runtime 5 = [53]"
  by (simp add: display_def ref_runtime_def ref_format_2f_def round_half_even_def rstrip_def
      digits_of.simps)

lemma display_ref_9: "display ref_runtime 9 = [57]"
  by (simp add: display_def ref_runtime_def ref_format_2f_def round_half_even_def rstrip_def
      digits_of.simps)

lemma select_ba:
  "select_period [row [98] 1 10, row [97] 1 20] 7 march_10 march_10 = [row [98] 1 10, row [97] 1 20]"
  by (simp add: select_period_def date_key_def)

lemma groupby_ba:
  "groupby_sum ref_runtime [row [98] 1 10, row [97] 1 20] = [([97], 1), ([98], 1)]"
  by (simp add: groupby_sum_def ref_runtime_def)

lemma groupby_ab:
  "groupby_sum ref_runtime [row [97] 1 10, row [98] 1 20] = [([97], 1), ([98], 1)]"
  by (simp add: groupby_sum_def ref_runtime_def)

lemma sort_values_ab:
  "sort_values_desc [([97::nat], 1::rat), ([98], 1)] = [([97], 1), ([98], 1)]"
  by (simp add: sort_values_desc_def)

lemma select_aba:
  "select_period [row [97] 3 10, row [98] 5 20, row [97] 1 30] 7 march_10 march_10 =
     [row [97] 3 10, row [98] 5 20, row [97] 1 30]"
  by (simp add: select_period_def date_key_def)

lemma groupby_aba:
  "groupby_sum ref_runtime [row [97] 3 10, row [98] 5 20, row [97] 1 30] =
     [([97], 4), ([98], 5)]"
  by (simp add: groupby_sum_def ref_runtime_def)

lemma sort_values_aba:
  "sort_values_desc [([97::nat], 4::rat), ([98], 5)] = [([98], 5), ([97], 4)]"
  by (simp add: sort_values_desc_def)

lemma report_one_row:
  "generate_report_for_period ref_runtime [row [97] 3 10] 7 march_10 march_10 =
     [SendReport 7 \<lparr>period = (march_10, None),
                    category_lines = [(display ref_runtime 3, [97])],
                    total_line = display ref_runtime (series_sum ref_runtime [3])\<rparr>,
      SendChart 7 [([97], 3)]]"
  by (simp add: generate_report_for_period_def select_period_def date_key_def groupby_sum_def
      sort_values_desc_def Let_def ref_runtime_def)

lemma select_sum_by_category_Nil: "select_sum_by_category rt rows = [] \<longleftrightarrow> rows = []"
  by (simp add: select_sum_by_category_def sort_values_desc_Nil sort_key_Nil_iff)

lemma set_select_sum_by_category:
  "set (select_sum_by_category rt rows) =
     (\<lambda>c. (c, sql_sum rt (map amount (filter (\<lambda>r. category r = c) rows)))) ` category ` set rows"
  by (simp add: select_sum_by_category_def set_sort_values_desc)

lemma distinct_select_sum_by_category:
  "distinct (map fst (select_sum_by_category rt rows))"
  by (simp add: select_sum_by_category_def distinct_fst_sort_values_desc comp_def)

lemma select_sum_aba:
  "select_sum_by_category ref_runtime [row [97] 3 10, row [98] 5 20, row [97] 1 30] =
     [([98], 5), ([97], 4)]"
  by (simp add: select_sum_by_category_def ref_runtime_def sort_values_desc_def)

section \<open>A period without expenses\<close>

text \<open>
  Claim C9. When no row of the user lies in the range of dates, the report is the single
  notice that the period has no expenses: this is a normal result, nothing is raised and
  no chart is made. Whatever the table holds, a chart that is sent never has an empty
  summary.
\<close>

theorem empty_period_notice_only:
  "((\<forall>r \<in> set db. \<not> (user_id r = chat_id \<and> date_key s \<le> date_key (fst (created_at r)) \<and>
                          date_key (fst (created_at r)) \<le> date_key e)) \<longrightarrow>
      generate_report_for_period rt db chat_id s e = [SendNoExpenses chat_id]) \<and>
   (\<forall>c summary. SendChart c summary \<in> set (generate_report_for_period rt db chat_id s e)
      \<longrightarrow> summary \<noteq> [])"
proof (intro conjI impI allI)
  assume "\<forall>r \<in> set db. \<not> (user_id r = chat_id \<and> date_key s \<le> date_key (fst (created_at r)) \<and>
                          date_key (fst (created_at r)) \<le> date_key e)"
  then have "select_period db chat_id s e = []"
    by (simp only: select_period_Nil)
  then show "generate_report_for_period rt db chat_id s e = [SendNoExpenses chat_id]"
    by (simp add: generate_report_for_period_def)
next
  fix c summary
  assume a: "SendChart c summary \<in> set (generate_report_for_period rt db chat_id s e)"
  show "summary \<noteq> []"
  proof (cases "select_period db chat_id s e = []")
    case True
    with a show ?thesis
      by (simp add: generate_report_for_period_def)
  next
    case False
    with a have "summary = sort_values_desc (groupby_sum rt (select_period db chat_id s e))"
      by (simp add: generate_report_for_period_def Let_def)
    with False show ?thesis
      by (simp add: sort_values_desc_Nil groupby_sum_Nil)
  qed
qed


theorem empty_period_notice_only_witness:
  "generate_report_for_period ref_runtime [row [97] 3 10] 8 march_10 march_10 =
     [SendNoExpenses 8] \<and>
   generate_report_for_period ref_runtime [row [97] 3 10] 7
       \<lparr>year = 2024, month = 3, day = 11\<rparr> \<lparr>year = 2024, month = 3, day = 12\<rparr> =
     [SendNoExpenses 7] \<and>
   SendChart 7 [([97], 3)] \<in>
     set (generate_report_for_period ref_runtime [row [97] 3 10] 7 march_10 march_10) \<and>
   [([97::nat], 3::rat)] \<noteq> []"
  using empty_period_notice_only [of "[row [97] 3 10]" 8 march_10 march_10 ref_runtime]
    empty_period_notice_only [of "[row [97] 3 10]" 7 "\<lparr>year = 2024, month = 3, day = 11\<rparr>"
      "\<lparr>year = 2024, month = 3, day = 12\<rparr>" ref_runtime]
    empty_period_notice_only [of "[row [97] 3 10]" 7 march_10 march_10 ref_runtime]
  by (simp add: report_one_row date_key_def)


section \<open>The order of the summary\<close>

text \<open>
  Claim C3, as amended. Every aggregation lists every category of its rows once, with
  the sum of its amounts, ordered by total descending: the summary of the report of a
  period, from which the report text and the chart are built in this order, and the
  rows of the SQL statement of \<open>show_all_stats\<close> and \<open>show_month_stats\<close>, from which
  their lines are built in this order. Nothing is promised on the order of categories
  with equal totals.
\<close>

theorem summary_sorted_descending:
  fixes rt :: "('f::{linorder,zero}) runtime" and rows :: "'f expense list"
  defines "summary \<equiv> sort_values_desc (groupby_sum rt rows)"
    and "sql_rows \<equiv> select_sum_by_category rt rows"
  shows "sorted_wrt (\<lambda>p q. snd q \<le> snd p) summary \<and>
         distinct (map fst summary) \<and>
         set summary =
           (\<lambda>c. (c, group_sum rt (map amount (filter (\<lambda>r. category r = c) rows))))
             ` category ` set rows \<and>
         (rows = select_period db chat_id s e \<and> rows \<noteq> [] \<longrightarrow>
            generate_report_for_period rt db chat_id s e =
              [SendReport chat_id
                 \<lparr>period = (s, if s \<noteq> e then Some e else None),
                  category_lines = map (\<lambda>(cat, amt). (display rt amt, cat)) summary,
                  total_line = display rt (series_sum rt (map snd summary))\<rparr>,
               SendChart chat_id summary]) \<and>
         sorted_wrt (\<lambda>p q. snd q \<le> snd p) sql_rows \<and>
         distinct (map fst sql_rows) \<and>
         set sql_rows =
           (\<lambda>c. (c, sql_sum rt (map amount (filter (\<lambda>r. category r = c) rows))))
             ` category ` set rows \<and>
         (rows = filter (\<lambda>r. user_id r = uid) db \<and> rows \<noteq> [] \<longrightarrow>
            show_all_stats rt db uid =
              AllStats (map (\<lambda>(category, amount). (display rt amount, category)) sql_rows)
                (display rt (foldl (float_add rt) 0 (map snd sql_rows)))) \<and>
         (rows = filter (\<lambda>r. user_id r = uid \<and> 1000 \<le> current_year \<and>
                               year (fst (created_at r)) = current_year \<and>
                               month (fst (created_at r)) = current_month) db \<and>
          rows \<noteq> [] \<longrightarrow>
            show_month_stats rt db uid current_year current_month =
              MonthStats current_year current_month
                (map (\<lambda>(category, amount). (display rt amount, category)) sql_rows)
                (display rt (foldl (float_add rt) 0 (map snd sql_rows))))"
proof (intro conjI impI)
  show "sorted_wrt (\<lambda>p q. snd q \<le> snd p) summary"
    unfolding summary_def by (rule sort_values_desc_sorted)
  show "distinct (map fst summary)"
    unfolding summary_def by (simp add: distinct_fst_sort_values_desc groupby_sum_keys)
  show "set summary =
           (\<lambda>c. (c, group_sum rt (map amount (filter (\<lambda>r. category r = c) rows))))
             ` category ` set rows"
    unfolding summary_def by (simp only: set_sort_values_desc set_groupby_sum)
  show "sorted_wrt (\<lambda>p q. snd q \<le> snd p) sql_rows"
    unfolding sql_rows_def select_sum_by_category_def by (rule sort_values_desc_sorted)
  show "distinct (map fst sql_rows)"
    unfolding sql_rows_def by (rule distinct_select_sum_by_category)
  show "set sql_rows =
           (\<lambda>c. (c, sql_sum rt (map amount (filter (\<lambda>r. category r = c) rows))))
             ` category ` set rows"
    unfolding sql_rows_def by (rule set_select_sum_by_category)
next
  assume a: "rows = select_period db chat_id s e \<and> rows \<noteq> []"
  then have ne: "select_period db chat_id s e \<noteq> []"
    by auto
  show "generate_report_for_period rt db chat_id s e =
              [SendReport chat_id
                 \<lparr>period = (s, if s \<noteq> e then Some e else None),
                  category_lines = map (\<lambda>(cat, amt). (display rt amt, cat)) summary,
                  total_line = display rt (series_sum rt (map snd summary))\<rparr>,
               SendChart chat_id summary]"
    unfolding summary_def using a ne
    by (simp add: generate_report_for_period_def Let_def)
next
  assume a: "rows = filter (\<lambda>r. user_id r = uid) db \<and> rows \<noteq> []"
  then have ne: "select_sum_by_category rt (filter (\<lambda>r. user_id r = uid) db) \<noteq> []"
    by (auto simp add: select_sum_by_category_Nil)
  show "show_all_stats rt db uid =
              AllStats (map (\<lambda>(category, amount). (display rt amount, category)) sql_rows)
                (display rt (foldl (float_add rt) 0 (map snd sql_rows)))"
    unfolding sql_rows_def using a ne
    by (simp add: show_all_stats_def Let_def)
next
  assume a: "rows = filter (\<lambda>r. user_id r = uid \<and> 1000 \<le> current_year \<and>
                               year (fst (created_at r)) = current_year \<and>
                               month (fst (created_at r)) = current_month) db \<and>
          rows \<noteq> []"
  then have ne: "select_sum_by_category rt
                   (filter (\<lambda>r. user_id r = uid \<and> 1000 \<le> current_year \<and>
                               year (fst (created_at r)) = current_year \<and>
                               month (fst (created_at r)) = current_month) db) \<noteq> []"
    by (auto simp add: select_sum_by_category_Nil)
  show "show_month_stats rt db uid current_year current_month =
              MonthStats current_year current_month
                (map (\<lambda>(category, amount). (display rt amount, category)) sql_rows)
                (display rt (foldl (float_add rt) 0 (map snd sql_rows)))"
    unfolding sql_rows_def using a ne
    by (simp add: show_month_stats_def Let_def)
qed

theorem summary_sorted_descending_witness:
  "sorted_wrt (\<lambda>p q. snd q \<le> snd p) [([98::nat], 5::rat), ([97], 4)] \<and>
   generate_report_for_period ref_runtime [row [97] 3 10, row [98] 5 20, row [97] 1 30]
       7 march_10 march_10 =
     [SendReport 7 \<lparr>period = (march_10, None),
                    category_lines = [([53], [98]), ([52], [97])],
                    total_line = [57]\<rparr>,
      SendChart 7 [([98], 5), ([97], 4)]] \<and>
   show_all_stats ref_runtime [row [97] 3 10, row [98] 5 20, row [97] 1 30] 7 =
     AllStats [([53], [98]), ([52], [97])] [57] \<and>
   show_month_stats ref_runtime [row [97] 3 10, row [98] 5 20, row [97] 1 30] 7 2024 3 =
     MonthStats 2024 3 [([53], [98]), ([52], [97])] [57]"
proof -
  let ?db = "[row [97] 3 10, row [98] 5 20, row [97] 1 30]"
  have s: "series_sum ref_runtime [5, 4] = 9"
    by (simp add: ref_runtime_def)
  have f: "float_add ref_runtime (float_add ref_runtime 0 5) 4 = 9"
    by (simp add: ref_runtime_def)
  have u: "?db = filter (\<lambda>r. user_id r = 7) ?db \<and> ?db \<noteq> []"
    by simp
  have m: "?db = filter (\<lambda>r. user_id r = 7 \<and> (1000::int) \<le> 2024 \<and>
                         year (fst (created_at r)) = 2024 \<and>
                         month (fst (created_at r)) = 3) ?db \<and> ?db \<noteq> []"
    by simp
  have p: "?db = select_period ?db 7 march_10 march_10 \<and> ?db \<noteq> []"
    by (simp add: select_aba)
  note t = summary_sorted_descending [where rt = ref_runtime and rows = ?db and db = ?db
        and chat_id = 7 and s = march_10 and e = march_10 and uid = 7
        and current_year = 2024 and current_month = 3]
  note t1 = t [THEN conjunct1]
  note t4 = t [THEN conjunct2, THEN conjunct2, THEN conjunct2, THEN conjunct1]
  note t8 = t [THEN conjunct2, THEN conjunct2, THEN conjunct2, THEN conjunct2, THEN conjunct2,
      THEN conjunct2, THEN conjunct2, THEN conjunct1]
  note t9 = t [THEN conjunct2, THEN conjunct2, THEN conjunct2, THEN conjunct2, THEN conjunct2,
      THEN conjunct2, THEN conjunct2, THEN conjunct2]
  from t1 have 1: "sorted_wrt (\<lambda>p q. snd q \<le> snd p) [([98::nat], 5::rat), ([97], 4)]"
    by (simp only: groupby_aba sort_values_aba)
  from t4 [rule_format, OF p]
  have 2: "generate_report_for_period ref_runtime ?db 7 march_10 march_10 =
     [SendReport 7 \<lparr>period = (march_10, None),
                    category_lines = [([53], [98]), ([52], [97])],
                    total_line = [57]\<rparr>,
      SendChart 7 [([98], 5), ([97], 4)]]"
    by (simp add: groupby_aba sort_values_aba display_ref_4 display_ref_5 display_ref_9 s)
  from t8 [rule_format, OF u]
  have 3: "show_all_stats ref_runtime ?db 7 = AllStats [([53], [98]), ([52], [97])] [57]"
    by (simp add: select_sum_aba display_ref_4 display_ref_5 display_ref_9 f)
  from t9 [rule_format, OF m]
  have 4: "show_month_stats ref_runtime ?db 7 2024 3 =
     MonthStats 2024 3 [([53], [98]), ([52], [97])] [57]"
    by (simp add: select_sum_aba display_ref_4 display_ref_5 display_ref_9 f)
  from 1 2 3 4 show ?thesis
    by (intro conjI)
qed


text \<open>
  The claim as stated, equal totals in first-seen order, fails: \<open>groupby\<close> emits the
  categories in ascending order, so the order of first appearance is lost before the
  sort by total. With \<open>b\<close> (98) entered before \<open>a\<close> (97), both with total 1, the report
  lists \<open>a\<close> first; the grouping pass gives the same list for both orders of entry.
\<close>

theorem ties_not_first_seen_counterexample:
  "generate_report_for_period ref_runtime [row [98] 1 10, row [97] 1 20] 7 march_10 march_10 =
     [SendReport 7 \<lparr>period = (march_10, None),
                    category_lines = [([49], [97]), ([49], [98])],
                    total_line = [50]\<rparr>,
      SendChart 7 [([97], 1), ([98], 1)]] \<and>
   groupby_sum ref_runtime [row [98] 1 10, row [97] 1 20] =
     groupby_sum ref_runtime [row [97] 1 10, row [98] 1 20]"
proof -
  have "generate_report_for_period ref_runtime [row [98] 1 10, row [97] 1 20] 7 march_10 march_10 =
     [SendReport 7 \<lparr>period = (march_10, None),
                    category_lines = [([49], [97]), ([49], [98])],
                    total_line = display ref_runtime (series_sum ref_runtime [1, 1])\<rparr>,
      SendChart 7 [([97], 1), ([98], 1)]]"
    by (simp add: generate_report_for_period_def select_ba groupby_ba sort_values_ab Let_def
        display_ref_1)
  moreover have "series_sum ref_runtime [1, 1] = 2"
    by (simp add: ref_runtime_def)
  ultimately show ?thesis
    by (simp add: display_ref_2 groupby_ba groupby_ab)
qed




section \<open>Facts about parsing\<close>

lemmas ref_simps = ref_runtime_def ref_isspace_def ref_lower_char_def
lemmas pattern_simps = entry_pattern_def amount_char_def currency_char_def upt_rec

lemma first_some_Some:
  "first_some f ks = Some r \<Longrightarrow> \<exists>k \<in> set ks. f k = Some r"
  by (induction ks) (auto split: option.splits)

lemma re_match_concat:
  "re_match as s = Some gs \<Longrightarrow>
   length gs = length as \<and> (concat gs = s \<or> concat gs @ [10] = s)"
proof (induction as arbitrary: s gs)
  case Nil
  then show ?case
    by (auto split: if_splits)
next
  case (Cons a as)
  from Cons.prems obtain k where
    k: "map_option (\<lambda>gs. take k s # gs) (re_match as (drop k s)) = Some gs"
    by (auto dest!: first_some_Some)
  then obtain gs' where gs': "re_match as (drop k s) = Some gs'" and gs: "gs = take k s # gs'"
    by auto
  from Cons.IH [OF gs'] have "length gs' = length as"
    and "concat gs' = drop k s \<or> concat gs' @ [10] = drop k s"
    by auto
  then show ?case
    unfolding gs by auto
qed

lemma re_match_no_amount:
  "\<not> amount_char rt c \<Longrightarrow> re_match (entry_pattern rt) (c # s) = None"
  by (simp add: entry_pattern_def)

lemma re_match_empty: "re_match (entry_pattern rt) [] = None"
  by (simp add: entry_pattern_def)


lemmas parse_simps = parse_entry_def pattern_simps ref_simps py_float_def replace_comma_def
  literal_value_def digits_value_def strip_def round_half_even_def

lemma parse_45: "parse_entry ref_runtime [52, 53] = ParseError [52, 53] BadFormat"
  by (simp add: parse_simps)

lemma parse_50_eda:
  "parse_entry ref_runtime [53, 48, 32, 1077, 1076, 1072] = Stored [1077, 1076, 1072] 50"
  by (simp add: parse_simps)

lemma parse_minus_5:
  "parse_entry ref_runtime [45, 53, 1088, 32, 1077, 1076, 1072] =
     ParseError [45, 53, 1088, 32, 1077, 1076, 1072] BadFormat"
  by (simp add: parse_simps)

lemma parse_45r_Eda:
  "parse_entry ref_runtime [52, 53, 1088, 32, 1045, 1076, 1072] = Stored [1077, 1076, 1072] 45"
  by (simp add: parse_simps)

lemma parse_0_eda:
  "parse_entry ref_runtime [48, 32, 1077, 1076, 1072] =
     ParseError [48, 32, 1077, 1076, 1072] BadAmount"
  by (simp add: parse_simps)

lemma split_comma_amount:
  "split_entries ref_runtime [52, 53, 44, 53, 48, 32, 1077, 1076, 1072] =
     [[52, 53], [53, 48, 32, 1077, 1076, 1072]]"
  by (simp add: split_entries_def re_split.simps is_sep_def strip_def ref_simps)

lemma strip_comma_amount:
  "strip ref_runtime [52, 53, 44, 53, 48, 32, 1077, 1076, 1072] =
     [52, 53, 44, 53, 48, 32, 1077, 1076, 1072]"
  by (simp add: strip_def ref_simps)

lemma re_split_unfold:
  "re_split s =
     (if dropWhile (\<lambda>c. \<not> is_sep c) s = [] then [takeWhile (\<lambda>c. \<not> is_sep c) s]
      else takeWhile (\<lambda>c. \<not> is_sep c) s #
           re_split (dropWhile is_sep (dropWhile (\<lambda>c. \<not> is_sep c) s)))"
  by (subst re_split.simps) (simp only: Let_def)

lemma re_split_no_sep: "p \<in> set (re_split s) \<Longrightarrow> c \<in> set p \<Longrightarrow> \<not> is_sep c"
proof (induction s arbitrary: p rule: re_split.induct)
  case (1 s)
  let ?piece = "takeWhile (\<lambda>c. \<not> is_sep c) s"
  let ?rest = "dropWhile (\<lambda>c. \<not> is_sep c) s"
  have piece: "\<not> is_sep c" if "c \<in> set ?piece"
    using that by (auto dest: set_takeWhileD)
  show ?case
  proof (cases "?rest = []")
    case True
    have "re_split s =
            (if ?rest = [] then [?piece] else ?piece # re_split (dropWhile is_sep ?rest))"
      by (rule re_split_unfold)
    also from True have "\<dots> = [?piece]"
      by (rule if_P)
    finally have "re_split s = [?piece]" .
    with "1.prems" show ?thesis
      using piece by simp
  next
    case False
    have "re_split s =
            (if ?rest = [] then [?piece] else ?piece # re_split (dropWhile is_sep ?rest))"
      by (rule re_split_unfold)
    also from False have "\<dots> = ?piece # re_split (dropWhile is_sep ?rest)"
      by (rule if_not_P)
    finally have "re_split s = ?piece # re_split (dropWhile is_sep ?rest)" .
    with "1.prems" have "p = ?piece \<or> p \<in> set (re_split (dropWhile is_sep ?rest))"
      by simp
    then show ?thesis
    proof
      assume "p = ?piece"
      with "1.prems" show ?thesis
        using piece by simp
    next
      assume "p \<in> set (re_split (dropWhile is_sep ?rest))"
      from "1.IH" [OF refl refl False this "1.prems"(2)] show ?thesis .
    qed
  qed
qed

lemma set_strip: "set (strip rt s) \<subseteq> set s"
  by (auto simp add: strip_def dest!: set_dropWhileD)

lemma entries_have_no_comma:
  "entry \<in> set (split_entries rt text) \<Longrightarrow> 44 \<notin> set entry"
proof
  assume e: "entry \<in> set (split_entries rt text)" and c: "44 \<in> set entry"
  from e obtain p where p: "p \<in> set (re_split text)" and "entry = strip rt p"
    by (auto simp add: split_entries_def)
  with c set_strip [of rt p] have "44 \<in> set p"
    by auto
  from re_split_no_sep [OF p this] show False
    by (simp add: is_sep_def)
qed

lemma parse_entry_Stored:
  fixes rt :: "('f::{linorder,zero}) runtime"
  assumes "parse_entry rt entry = Stored cat amt"
  shows "\<exists>g1 w1 cur w2 g2 x.
           re_match (entry_pattern rt) (str_lower rt entry) = Some [g1, w1, cur, w2, g2] \<and>
           py_float rt (replace_comma g1) = Some x \<and> 0 < x \<and>
           amt = round_2 rt x \<and> cat = strip rt g2"
  using assms
  by (auto simp add: parse_entry_def split: option.splits list.splits if_splits)

lemma split_minus_5:
  "split_entries ref_runtime (strip ref_runtime [45, 53, 1088, 32, 1077, 1076, 1072]) =
     [[45, 53, 1088, 32, 1077, 1076, 1072]]"
  by (simp add: split_entries_def re_split.simps is_sep_def strip_def ref_simps)

lemma split_45r_Eda:
  "split_entries ref_runtime (strip ref_runtime [52, 53, 1088, 32, 1045, 1076, 1072]) =
     [[52, 53, 1088, 32, 1045, 1076, 1072]]"
  by (simp add: split_entries_def re_split.simps is_sep_def strip_def ref_simps)

lemma strip_45r_Eda:
  "strip ref_runtime [52, 53, 1088, 32, 1045, 1076, 1072] =
     [52, 53, 1088, 32, 1045, 1076, 1072]"
  by (simp add: strip_def ref_simps)

lemma match_0_eda:
  "re_match (entry_pattern ref_runtime) (str_lower ref_runtime [48, 32, 1077, 1076, 1072]) =
     Some [[48], [], [], [32], [1077, 1076, 1072]]"
  by (simp add: pattern_simps ref_simps)

lemma float_0: "py_float ref_runtime (replace_comma [48]) = Some 0"
  by (simp add: py_float_def replace_comma_def literal_value_def digits_value_def ref_simps)

lemma lower_minus_5:
  "str_lower ref_runtime [45, 53, 1088, 32, 1077, 1076, 1072] =
     45 # [53, 1088, 32, 1077, 1076, 1072]"
  by (simp add: ref_simps)

lemma minus_no_amount_char: "\<not> amount_char ref_runtime 45"
  by (simp add: amount_char_def ref_simps)

lemma lower_45r_Eda:
  "str_lower ref_runtime [52, 53, 1088, 32, 1045, 1076, 1072] =
     [52, 53, 1088, 32, 1077, 1076, 1072]"
  by (simp add: ref_simps)

lemma groupby_Eda_eda:
  "groupby_sum ref_runtime [row [1077, 1076, 1072] 2 10, row [1045, 1076, 1072] 1 20] =
     [([1045, 1076, 1072], 1), ([1077, 1076, 1072], 2)]"
  by (simp add: groupby_sum_def ref_runtime_def)

lemma expense_loop_rows:
  "snd (snd (expense_loop rt now uid entries (n, errs, db))) =
     db @ concat (map (\<lambda>e. case parse_entry rt e of
                               Stored cat amt \<Rightarrow>
                                 [\<lparr>user_id = uid, category = cat, amount = amt, created_at = now\<rparr>]
                             | ParseError x r \<Rightarrow> []) entries)"
  by (induction entries arbitrary: n errs db) (auto split: outcome.splits)

lemma fst_set_groupby_sum: "fst ` set (groupby_sum rt rows) = category ` set rows"
  by (simp add: groupby_sum_def image_image)

lemma match_45r_Eda:
  "re_match (entry_pattern ref_runtime) [52, 53, 1088, 32, 1077, 1076, 1072] =
     Some [[52, 53], [], [1088], [32], [1077, 1076, 1072]]"
  by (simp add: pattern_simps ref_simps)

section \<open>Amounts written with a comma\<close>

text \<open>
  Claim C1. The message \<open>45,50\<close> followed by a space and the category (the Cyrillic word
  1077 1076 1072), sent alone, does not give one record of 45.50: the split at the comma
  comes first, so the entry \<open>45\<close> is an error of format and the entry \<open>50\<close> with the
  category is stored with the amount 50. The pattern admits a comma in the amount and
  the handler replaces it by a dot, but no entry ever holds a comma
  (\<open>entries_have_no_comma\<close>).
\<close>

theorem comma_amount_is_split:
  "handle_expense ref_runtime now uid [52, 53, 44, 53, 48, 32, 1077, 1076, 1072] db =
     (Some (Response [Added 1, Errors [([52, 53], BadFormat)]]),
      db @ [\<lparr>user_id = uid, category = [1077, 1076, 1072], amount = 50, created_at = now\<rparr>])"
  by (simp add: handle_expense_def strip_comma_amount split_comma_amount parse_45 parse_50_eda)


section \<open>Amounts that are not positive\<close>

text \<open>
  Claim C4, as amended. An entry whose lower-cased text does not start with a digit, a
  comma or a dot, such as one starting with a minus sign, does not match the pattern
  and is an error of format. An entry that matches and whose amount converts to a float
  that is zero or less is an amount error. A record is stored only for an amount that
  converts to a float above zero, and holds that float rounded to two places.
\<close>

theorem nonpositive_amount_is_error:
  fixes rt :: "('f::{linorder,zero}) runtime"
  shows "(\<forall>c s. str_lower rt entry = c # s \<and> \<not> amount_char rt c \<longrightarrow>
            parse_entry rt entry = ParseError entry BadFormat) \<and>
         (\<forall>g1 w1 cur w2 g2 x.
            re_match (entry_pattern rt) (str_lower rt entry) = Some [g1, w1, cur, w2, g2] \<and>
            py_float rt (replace_comma g1) = Some x \<and> x \<le> 0 \<longrightarrow>
            parse_entry rt entry = ParseError entry BadAmount) \<and>
         (\<forall>cat amt. parse_entry rt entry = Stored cat amt \<longrightarrow>
            (\<exists>g1 w1 cur w2 g2 x.
               re_match (entry_pattern rt) (str_lower rt entry) = Some [g1, w1, cur, w2, g2] \<and>
               py_float rt (replace_comma g1) = Some x \<and> 0 < x \<and> amt = round_2 rt x))"
proof (intro conjI allI impI)
  fix c s
  assume "str_lower rt entry = c # s \<and> \<not> amount_char rt c"
  then show "parse_entry rt entry = ParseError entry BadFormat"
    by (simp add: parse_entry_def re_match_no_amount)
next
  fix g1 w1 cur w2 g2 x
  assume "re_match (entry_pattern rt) (str_lower rt entry) = Some [g1, w1, cur, w2, g2] \<and>
            py_float rt (replace_comma g1) = Some x \<and> x \<le> 0"
  then show "parse_entry rt entry = ParseError entry BadAmount"
    by (simp add: parse_entry_def)
next
  fix cat amt
  assume "parse_entry rt entry = Stored cat amt"
  from parse_entry_Stored [OF this]
  show "\<exists>g1 w1 cur w2 g2 x.
               re_match (entry_pattern rt) (str_lower rt entry) = Some [g1, w1, cur, w2, g2] \<and>
               py_float rt (replace_comma g1) = Some x \<and> 0 < x \<and> amt = round_2 rt x"
    by blast
qed

theorem nonpositive_amount_is_error_witness:
  "parse_entry ref_runtime [45, 53, 1088, 32, 1077, 1076, 1072] =
     ParseError [45, 53, 1088, 32, 1077, 1076, 1072] BadFormat \<and>
   parse_entry ref_runtime [48, 32, 1077, 1076, 1072] =
     ParseError [48, 32, 1077, 1076, 1072] BadAmount \<and>
   parse_entry ref_runtime [53, 48, 32, 1077, 1076, 1072] = Stored [1077, 1076, 1072] 50 \<and>
   (\<exists>g1 w1 cur w2 g2 x.
      re_match (entry_pattern ref_runtime) (str_lower ref_runtime [53, 48, 32, 1077, 1076, 1072])
        = Some [g1, w1, cur, w2, g2] \<and>
      py_float ref_runtime (replace_comma g1) = Some x \<and> 0 < x \<and>
      (50::rat) = round_2 ref_runtime x)"
proof -
  from nonpositive_amount_is_error [of ref_runtime "[45, 53, 1088, 32, 1077, 1076, 1072]"]
    lower_minus_5 minus_no_amount_char
  have 1: "parse_entry ref_runtime [45, 53, 1088, 32, 1077, 1076, 1072] =
             ParseError [45, 53, 1088, 32, 1077, 1076, 1072] BadFormat"
    by blast
  from nonpositive_amount_is_error [of ref_runtime "[48, 32, 1077, 1076, 1072]"]
    match_0_eda float_0
  have 2: "parse_entry ref_runtime [48, 32, 1077, 1076, 1072] =
             ParseError [48, 32, 1077, 1076, 1072] BadAmount"
    by (metis order_refl)
  from nonpositive_amount_is_error [of ref_runtime "[53, 48, 32, 1077, 1076, 1072]"]
    parse_50_eda
  have 3: "\<exists>g1 w1 cur w2 g2 x.
      re_match (entry_pattern ref_runtime) (str_lower ref_runtime [53, 48, 32, 1077, 1076, 1072])
        = Some [g1, w1, cur, w2, g2] \<and>
      py_float ref_runtime (replace_comma g1) = Some x \<and> 0 < x \<and>
      (50::rat) = round_2 ref_runtime x"
    by blast
  from 1 2 3 parse_50_eda show ?thesis
    by (intro conjI)
qed

text \<open>
  The claim as stated fails on its own example: the entry \<open>-5\<close> with the currency
  letter, a space and the category is one error, with the reason bad format and not
  bad amount.
\<close>

theorem minus_five_is_bad_format_counterexample:
  "outcomes ref_runtime [45, 53, 1088, 32, 1077, 1076, 1072] =
     [ParseError [45, 53, 1088, 32, 1077, 1076, 1072] BadFormat]"
  by (simp add: outcomes_def split_minus_5 parse_minus_5)

section \<open>The stored category\<close>

text \<open>
  Claim C5, as amended. The category of a stored record is cut from the lower-cased
  entry: when an entry is stored, the pattern matches \<open>entry.lower()\<close>, the five parts
  of the match follow each other in the lowered entry, and the category is the second
  group (the last part) with the whitespace at both ends removed. The loop inserts one
  row for every entry that parses, with exactly this category. The grouping of a report
  compares the stored strings as they are: the groups are the categories of the rows,
  each once, and the total of a group is the sum of the rows that have exactly this
  category.
\<close>

theorem category_from_lowered_entry:
  fixes rt :: "('f::{linorder,zero}) runtime"
  shows "(\<forall>cat amt. parse_entry rt entry = Stored cat amt \<longrightarrow>
            (\<exists>g1 w1 cur w2 g2 post.
               re_match (entry_pattern rt) (str_lower rt entry) = Some [g1, w1, cur, w2, g2] \<and>
               str_lower rt entry = g1 @ w1 @ cur @ w2 @ g2 @ post \<and>
               (post = [] \<or> post = [10]) \<and> cat = strip rt g2)) \<and>
         snd (snd (expense_loop rt now uid entries (n, errs, db))) =
           db @ concat (map (\<lambda>e. case parse_entry rt e of
                                     Stored cat amt \<Rightarrow>
                                       [\<lparr>user_id = uid, category = cat, amount = amt,
                                         created_at = now\<rparr>]
                                   | ParseError x r \<Rightarrow> []) entries) \<and>
         distinct (map fst (groupby_sum rt rows)) \<and>
         fst ` set (groupby_sum rt rows) = category ` set rows \<and>
         (\<forall>c t. (c, t) \<in> set (groupby_sum rt rows) \<longrightarrow>
            t = group_sum rt (map amount (filter (\<lambda>r. category r = c) rows)))"
proof (intro conjI allI impI)
  fix cat amt
  assume "parse_entry rt entry = Stored cat amt"
  from parse_entry_Stored [OF this] obtain g1 w1 cur w2 g2 where
    m: "re_match (entry_pattern rt) (str_lower rt entry) = Some [g1, w1, cur, w2, g2]"
    and c: "cat = strip rt g2"
    by blast
  from re_match_concat [OF m]
  have "g1 @ w1 @ cur @ w2 @ g2 = str_lower rt entry \<or>
        g1 @ w1 @ cur @ w2 @ g2 @ [10] = str_lower rt entry"
    by simp
  then have "\<exists>post. str_lower rt entry = g1 @ w1 @ cur @ w2 @ g2 @ post \<and>
                    (post = [] \<or> post = [10])"
  proof
    assume "g1 @ w1 @ cur @ w2 @ g2 = str_lower rt entry"
    then have "str_lower rt entry = g1 @ w1 @ cur @ w2 @ g2 @ [] \<and> ([] = [] \<or> [] = [10::nat])"
      by simp
    then show ?thesis
      by (rule exI)
  next
    assume "g1 @ w1 @ cur @ w2 @ g2 @ [10] = str_lower rt entry"
    then have "str_lower rt entry = g1 @ w1 @ cur @ w2 @ g2 @ [10] \<and>
                 ([10] = [] \<or> [10] = [10::nat])"
      by simp
    then show ?thesis
      by (rule exI)
  qed
  with m c show "\<exists>g1 w1 cur w2 g2 post.
               re_match (entry_pattern rt) (str_lower rt entry) = Some [g1, w1, cur, w2, g2] \<and>
               str_lower rt entry = g1 @ w1 @ cur @ w2 @ g2 @ post \<and>
               (post = [] \<or> post = [10]) \<and> cat = strip rt g2"
    by blast
next
  show "snd (snd (expense_loop rt now uid entries (n, errs, db))) =
           db @ concat (map (\<lambda>e. case parse_entry rt e of
                                     Stored cat amt \<Rightarrow>
                                       [\<lparr>user_id = uid, category = cat, amount = amt,
                                         created_at = now\<rparr>]
                                   | ParseError x r \<Rightarrow> []) entries)"
    by (rule expense_loop_rows)
next
  show "distinct (map fst (groupby_sum rt rows))"
    by (simp add: groupby_sum_def comp_def)
next
  show "fst ` set (groupby_sum rt rows) = category ` set rows"
    by (rule fst_set_groupby_sum)
next
  fix c t
  assume "(c, t) \<in> set (groupby_sum rt rows)"
  then show "t = group_sum rt (map amount (filter (\<lambda>r. category r = c) rows))"
    by (auto simp add: groupby_sum_def)
qed

theorem category_from_lowered_entry_witness:
  "parse_entry ref_runtime [52, 53, 1088, 32, 1045, 1076, 1072] = Stored [1077, 1076, 1072] 45 \<and>
   re_match (entry_pattern ref_runtime)
       (str_lower ref_runtime [52, 53, 1088, 32, 1045, 1076, 1072]) =
     Some [[52, 53], [], [1088], [32], [1077, 1076, 1072]] \<and>
   (\<exists>g1 w1 cur w2 g2 post.
      re_match (entry_pattern ref_runtime)
          (str_lower ref_runtime [52, 53, 1088, 32, 1045, 1076, 1072]) =
        Some [g1, w1, cur, w2, g2] \<and>
      str_lower ref_runtime [52, 53, 1088, 32, 1045, 1076, 1072] =
        g1 @ w1 @ cur @ w2 @ g2 @ post \<and>
      (post = [] \<or> post = [10]) \<and> [1077, 1076, 1072] = strip ref_runtime g2) \<and>
   snd (snd (expense_loop ref_runtime (march_10, 0) 7 [[52, 53, 1088, 32, 1045, 1076, 1072]]
               (0, [], []))) = [row [1077, 1076, 1072] 45 0] \<and>
   groupby_sum ref_runtime [row [1077, 1076, 1072] 2 10, row [1045, 1076, 1072] 1 20] =
     [([1045, 1076, 1072], 1), ([1077, 1076, 1072], 2)] \<and>
   (1::rat) = group_sum ref_runtime (map amount (filter (\<lambda>r. category r = [1045, 1076, 1072])
      [row [1077, 1076, 1072] 2 10, row [1045, 1076, 1072] 1 20]))"
proof -
  note t = category_from_lowered_entry [of ref_runtime "[52, 53, 1088, 32, 1045, 1076, 1072]"
      "(march_10, 0)" 7 "[[52, 53, 1088, 32, 1045, 1076, 1072]]" 0 "[]" "[]"
      "[row [1077, 1076, 1072] 2 10, row [1045, 1076, 1072] 1 20]"]
  have m: "re_match (entry_pattern ref_runtime)
       (str_lower ref_runtime [52, 53, 1088, 32, 1045, 1076, 1072]) =
     Some [[52, 53], [], [1088], [32], [1077, 1076, 1072]]"
    by (simp only: lower_45r_Eda match_45r_Eda)
  from t parse_45r_Eda
  have 1: "\<exists>g1 w1 cur w2 g2 post.
      re_match (entry_pattern ref_runtime)
          (str_lower ref_runtime [52, 53, 1088, 32, 1045, 1076, 1072]) =
        Some [g1, w1, cur, w2, g2] \<and>
      str_lower ref_runtime [52, 53, 1088, 32, 1045, 1076, 1072] =
        g1 @ w1 @ cur @ w2 @ g2 @ post \<and>
      (post = [] \<or> post = [10]) \<and> [1077, 1076, 1072] = strip ref_runtime g2"
    by blast
  from t have "snd (snd (expense_loop ref_runtime (march_10, 0) 7
                    [[52, 53, 1088, 32, 1045, 1076, 1072]] (0, [], []))) =
      [] @ concat (map (\<lambda>e. case parse_entry ref_runtime e of
                               Stored cat amt \<Rightarrow>
                                 [\<lparr>user_id = 7, category = cat, amount = amt,
                                   created_at = (march_10, 0)\<rparr>]
                             | ParseError x r \<Rightarrow> []) [[52, 53, 1088, 32, 1045, 1076, 1072]])"
    by blast
  then have 2: "snd (snd (expense_loop ref_runtime (march_10, 0) 7
                    [[52, 53, 1088, 32, 1045, 1076, 1072]] (0, [], []))) =
      [row [1077, 1076, 1072] 45 0]"
    by (simp add: parse_45r_Eda)
  have "([1045, 1076, 1072], 1) \<in>
          set (groupby_sum ref_runtime [row [1077, 1076, 1072] 2 10, row [1045, 1076, 1072] 1 20])"
    by (simp add: groupby_Eda_eda)
  with t have 3: "(1::rat) = group_sum ref_runtime (map amount
      (filter (\<lambda>r. category r = [1045, 1076, 1072])
         [row [1077, 1076, 1072] 2 10, row [1045, 1076, 1072] 1 20]))"
    by blast
  from parse_45r_Eda m 1 2 groupby_Eda_eda 3 show ?thesis
    by (intro conjI)
qed


text \<open>
  The claim as stated, that upper and lower case are kept as entered, fails: the entry
  \<open>45\<close> with the currency letter, a space and the category written with a capital
  first letter (1045 1076 1072) is stored with the category in lower case
  (1077 1076 1072).
\<close>

theorem category_is_lowered_counterexample:
  "handle_expense ref_runtime (march_10, 0) 7 [52, 53, 1088, 32, 1045, 1076, 1072] [] =
     (Some (Response [Added 1]), [row [1077, 1076, 1072] 45 0]) \<and>
   [1077, 1076, 1072] \<noteq> [1045, 1076, 1072 :: nat]"
  using split_45r_Eda
  by (simp add: handle_expense_def strip_45r_Eda parse_45r_Eda)


section \<open>Facts about doubles\<close>

lemma floor_rat_numeral:
  "\<lfloor>(numeral a / numeral b :: rat)\<rfloor> = numeral a div numeral b"
  using floor_divide_of_int_eq [of "numeral a" "numeral b", where ?'a = rat] by simp

lemma ceiling_rat_numeral:
  "\<lceil>(numeral a / numeral b :: rat)\<rceil> = - ((- numeral a) div numeral b)"
  using ceiling_divide_eq_div [of "numeral a" "numeral b", where ?'a = rat] by simp

lemmas double_simps = round_double_def exponent_def pow2_def round_half_even_def
  bit_length.simps double_add_def floor_rat_numeral ceiling_rat_numeral



lemma round_double_big_1: "round_double 9007199254740993 = 9007199254740992"
  by (simp add: double_simps)

lemma double_add_big_1: "double_add 9007199254740992 1 = 9007199254740992"
  by (simp add: double_add_def round_double_big_1)


lemma round_double_0: "round_double 0 = 0"
  by (simp add: round_double_def)










































section \<open>The total line and the category lines\<close>





end
